theory Spec2Isabelle
  imports Main "HOL-Library.Word" "HOL-Library.AList"
begin

section \<open>Evidence chain of custody of the Android collector\<close>

text \<open>
  The development embeds the chain-of-custody functions of \<^verbatim>\<open>collector/views.py\<close>:
  \<^verbatim>\<open>calculate_hash\<close>, \<^verbatim>\<open>create_evidence_chain\<close>, \<^verbatim>\<open>save_to_evidence_log\<close>,
  \<^verbatim>\<open>save_to_json_log\<close>, \<^verbatim>\<open>verify_integrity\<close>, \<^verbatim>\<open>verify_file_integrity\<close>,
  \<^verbatim>\<open>generate_forensic_report\<close> and \<^verbatim>\<open>save_report_files\<close>.
  Python exceptions are values of type \<open>error\<close>; a function that can raise returns
  \<open>error + 'a\<close>, and a function that writes files returns the new world with its result.
\<close>

subsection \<open>Values\<close>

type_synonym byte = "8 word"

text \<open>
  What \<^verbatim>\<open>json.load\<close> returns and \<^verbatim>\<open>json.dump\<close> accepts, floating-point numbers left
  out. A Python dict is an association list read with \<open>map_of\<close>; Python's \<^verbatim>\<open>None\<close> is
  \<open>JNull\<close>.
\<close>

datatype json =
    JNull
  | JBool bool
  | JInt int
  | JStr string
  | JArr "json list"
  | JObj "(string \<times> json) list"

type_synonym dict = "(string \<times> json) list"

datatype error =
    FileNotFoundError
  | PermissionError
  | IsADirectoryError
  | OSError
  | ValueError
  | JSONDecodeError
  | KeyError
  | TypeError
  | AttributeError

text \<open>\<^verbatim>\<open>d.get(k)\<close>: the value, or \<^verbatim>\<open>None\<close> when the key is absent.\<close>

definition dict_get :: "dict \<Rightarrow> string \<Rightarrow> json" where
  "dict_get d k = (case map_of d k of None \<Rightarrow> JNull | Some v \<Rightarrow> v)"

text \<open>\<^verbatim>\<open>d.get(k, default)\<close>.\<close>

definition dict_get_default :: "dict \<Rightarrow> string \<Rightarrow> json \<Rightarrow> json" where
  "dict_get_default d k dflt = (case map_of d k of None \<Rightarrow> dflt | Some v \<Rightarrow> v)"

text \<open>
  \<^verbatim>\<open>str(e)\<close> of an exception, as stored in the \<^verbatim>\<open>error\<close> field of a degraded record.
  The message is abstracted to one text per exception class; no property depends on it.
\<close>

fun str_of_error :: "error \<Rightarrow> string" where
  "str_of_error FileNotFoundError = ''No such file or directory''"
| "str_of_error PermissionError = ''Permission denied''"
| "str_of_error IsADirectoryError = ''Is a directory''"
| "str_of_error OSError = ''Input/output error''"
| "str_of_error ValueError = ''unsupported hash type''"
| "str_of_error JSONDecodeError = ''Expecting value''"
| "str_of_error KeyError = ''evidence_chain''"
| "str_of_error TypeError = ''object is not subscriptable''"
| "str_of_error AttributeError = ''object has no attribute''"

subsection \<open>Paths and the file system\<close>

text \<open>\<^verbatim>\<open>os.path.basename\<close> (POSIX): everything after the last slash.\<close>

definition basename :: "string \<Rightarrow> string" where
  "basename p = rev (takeWhile (\<lambda>c. c \<noteq> CHR ''/'') (rev p))"

text \<open>\<^verbatim>\<open>os.path.join\<close> of two components (POSIX): an absolute second component wins.\<close>

definition os_path_join :: "string \<Rightarrow> string \<Rightarrow> string" where
  "os_path_join a b =
     (if b \<noteq> [] \<and> hd b = CHR ''/'' then b
      else if a = [] \<or> last a = CHR ''/'' then a @ b
      else a @ ''/'' @ b)"

text \<open>
  A path names a regular file (its bytes, and whether this process can open and read
  it) or a directory (with the size \<^verbatim>\<open>stat\<close> reports for it).
\<close>

datatype node =
    RegularFile "byte list" bool
  | Directory nat

type_synonym filesystem = "string \<Rightarrow> node option"

definition os_path_exists :: "filesystem \<Rightarrow> string \<Rightarrow> bool" where
  "os_path_exists fs p = (fs p \<noteq> None)"

text \<open>
  \<^verbatim>\<open>os.path.getsize\<close>. The calls \<^verbatim>\<open>os.path.getmtime\<close> and \<^verbatim>\<open>os.path.getctime\<close> that follow
  it in \<^verbatim>\<open>create_evidence_chain\<close> read the same \<^verbatim>\<open>stat\<close> record, raise exactly when this
  one does, and their results are not used.
\<close>

definition os_path_getsize :: "filesystem \<Rightarrow> string \<Rightarrow> error + nat" where
  "os_path_getsize fs p =
     (case fs p of
        None \<Rightarrow> Inl FileNotFoundError
      | Some (RegularFile bs r) \<Rightarrow> Inr (length bs)
      | Some (Directory n) \<Rightarrow> Inr n)"

text \<open>\<^verbatim>\<open>open(file_path, 'rb')\<close> followed by reading the file to its end.\<close>

definition open_rb :: "filesystem \<Rightarrow> string \<Rightarrow> error + byte list" where
  "open_rb fs p =
     (case fs p of
        None \<Rightarrow> Inl FileNotFoundError
      | Some (RegularFile bs r) \<Rightarrow> (if r then Inr bs else Inl PermissionError)
      | Some (Directory n) \<Rightarrow> Inl IsADirectoryError)"

subsection \<open>Library functions taken as parameters\<close>

text \<open>
  \<^verbatim>\<open>hashlib\<close> is not part of the repository. \<open>hashlib_new alg\<close> is \<open>None\<close> when
  \<^verbatim>\<open>hashlib.new(alg)\<close> raises \<^verbatim>\<open>ValueError\<close>, and otherwise tells which hash object is built:
  one of a fixed digest length, given by the function from the bytes fed to it to its
  \<^verbatim>\<open>hexdigest()\<close>, or one of variable length (\<^verbatim>\<open>shake_128\<close>, \<^verbatim>\<open>shake_256\<close>), whose
  \<^verbatim>\<open>hexdigest\<close> requires a length and raises \<^verbatim>\<open>TypeError\<close> when called without one.
  \<^verbatim>\<open>format_file_size\<close> formats a floating-point quotient and is taken as a parameter too;
  no property below depends on it.
\<close>

datatype hasher = Fixed "byte list \<Rightarrow> string" | Variable

record lib =
  hashlib_new :: "string \<Rightarrow> hasher option"
  format_file_size :: "nat \<Rightarrow> string"

subsection \<open>Digest engine\<close>

text \<open>\<^verbatim>\<open>iter(lambda: f.read(n), b"")\<close>: the chunks read until the first empty one.\<close>

function read_chunks :: "nat \<Rightarrow> byte list \<Rightarrow> byte list list" where
  "read_chunks n bs =
     (if take n bs = [] then [] else take n bs # read_chunks n (drop n bs))"
  by pat_completeness auto
termination
  by (relation "measure (\<lambda>(n, bs). length bs)") auto

declare read_chunks.simps [simp del]

text \<open>A hash object: which hasher it is and the bytes it has been fed so far.\<close>

type_synonym hash_obj = "hasher \<times> byte list"

definition hash_update :: "byte list \<Rightarrow> hash_obj \<Rightarrow> hash_obj" where
  "hash_update chunk h = (fst h, snd h @ chunk)"

text \<open>\<^verbatim>\<open>hash_func.hexdigest()\<close>, called without a length.\<close>

definition hexdigest :: "hash_obj \<Rightarrow> error + string" where
  "hexdigest h = (case fst h of Fixed f \<Rightarrow> Inr (f (snd h)) | Variable \<Rightarrow> Inl TypeError)"

text \<open>
  \<^verbatim>\<open>calculate_hash\<close>: \<^verbatim>\<open>hashlib.new\<close> is called before the \<^verbatim>\<open>try\<close>, so its \<^verbatim>\<open>ValueError\<close>
  propagates; opening, reading and \<^verbatim>\<open>hexdigest()\<close> are inside it, and the bare \<^verbatim>\<open>except\<close>
  turns every exception of theirs into the returned string \<^verbatim>\<open>"ERROR"\<close>.
\<close>

definition calculate_hash :: "lib \<Rightarrow> filesystem \<Rightarrow> string \<Rightarrow> string \<Rightarrow> error + string" where
  "calculate_hash L fs file_path algorithm =
     (case hashlib_new L algorithm of
        None \<Rightarrow> Inl ValueError
      | Some hash_func \<Rightarrow>
          (case open_rb fs file_path of
             Inl e \<Rightarrow> Inr ''ERROR''
           | Inr bs \<Rightarrow>
               (case hexdigest (fold hash_update (read_chunks 4096 bs) (hash_func, [])) of
                  Inl e \<Rightarrow> Inr ''ERROR''
                | Inr digest \<Rightarrow> Inr digest)))"

subsection \<open>Evidence ledger\<close>

text \<open>
  The structured ledger document \<^verbatim>\<open>evidence_chain/evidence_log.json\<close>: absent, present but
  not loadable (\<^verbatim>\<open>open\<close> or \<^verbatim>\<open>json.load\<close> raises), or holding a JSON value. Serialisation is
  abstracted: a document written by \<^verbatim>\<open>json.dump\<close> loads as the value that was dumped.
\<close>

datatype jfile = Missing | Corrupt | Parsed json

text \<open>
  The world the functions act on: the artefact files, the row-oriented log
  \<^verbatim>\<open>evidence_log.csv\<close> (absent, or its rows with the header first), the ledger document,
  and the files under \<^verbatim>\<open>forensic_reports\<close> (a JSON document, an HTML document, or what a
  write that failed after truncating the file has left).
\<close>

datatype document = JsonDoc json | HtmlDoc "json list" | Truncated

record world =
  files :: filesystem
  csv_log :: "json list list option"
  json_log :: jfile
  reports :: "string \<Rightarrow> document option"

text \<open>
  How an attempt to rewrite a file with \<^verbatim>\<open>open(path, 'w')\<close> and \<^verbatim>\<open>json.dump\<close> or \<^verbatim>\<open>write\<close>
  ends: the document is written; or \<^verbatim>\<open>open\<close> raises and the file is as it was; or
  \<^verbatim>\<open>open\<close> has truncated the file and the write raises, which leaves a document that does
  not load.
\<close>

datatype write_outcome = Written | OpenFails | DumpFails

text \<open>
  What the environment decides during one call of \<^verbatim>\<open>create_evidence_chain\<close>: the two clock
  readings (in the \<^verbatim>\<open>try\<close> block and in the handler), whether \<^verbatim>\<open>os.makedirs\<close> and the
  opening of the CSV log for appending succeed (the row is then taken to be written),
  and how the write of the ledger document in the \<^verbatim>\<open>try\<close> block of \<^verbatim>\<open>save_to_json_log\<close> and
  the one in its handler end.
\<close>

record rec_env =
  now :: string
  now_fail :: string
  csv_open_ok :: bool
  json_write :: write_outcome
  json_rewrite :: write_outcome

definition fieldnames :: "string list" where
  "fieldnames =
     [''timestamp'', ''filename'', ''full_path'', ''file_size'',
      ''file_size_readable'', ''md5'', ''sha1'', ''sha256'',
      ''operation'', ''operator'', ''device_id'', ''integrity_check'', ''notes'']"

text \<open>\<^verbatim>\<open>csv.DictWriter.writerow\<close>: the values in column order, \<^verbatim>\<open>''\<close> for a missing key.\<close>

definition csv_row :: "dict \<Rightarrow> json list" where
  "csv_row e = map (\<lambda>k. dict_get_default e k (JStr [])) fieldnames"

text \<open>The \<^verbatim>\<open>try\<close> block of \<^verbatim>\<open>save_to_json_log\<close> up to the statement that appends.\<close>

definition load_or_new :: "jfile \<Rightarrow> error + json" where
  "load_or_new jf =
     (case jf of
        Missing \<Rightarrow> Inr (JObj [(''evidence_chain'', JArr [])])
      | Corrupt \<Rightarrow> Inl JSONDecodeError
      | Parsed data \<Rightarrow> Inr data)"

text \<open>\<^verbatim>\<open>data["evidence_chain"].append(evidence_entry)\<close>.\<close>

definition append_entry :: "json \<Rightarrow> dict \<Rightarrow> error + json" where
  "append_entry data evidence_entry =
     (case data of
        JObj d \<Rightarrow>
          (case map_of d ''evidence_chain'' of
             None \<Rightarrow> Inl KeyError
           | Some (JArr xs) \<Rightarrow>
               Inr (JObj (AList.update ''evidence_chain'' (JArr (xs @ [JObj evidence_entry])) d))
           | Some _ \<Rightarrow> Inl AttributeError)
      | _ \<Rightarrow> Inl TypeError)"

text \<open>\<^verbatim>\<open>with open(json_file, 'w') as f: json.dump(data, f, ...)\<close>.\<close>

definition write_json :: "write_outcome \<Rightarrow> json \<Rightarrow> jfile \<Rightarrow> (error + unit) \<times> jfile" where
  "write_json outcome data json_file =
     (case outcome of
        Written \<Rightarrow> (Inr (), Parsed data)
      | OpenFails \<Rightarrow> (Inl OSError, json_file)
      | DumpFails \<Rightarrow> (Inl OSError, Corrupt))"

text \<open>
  \<^verbatim>\<open>save_to_json_log\<close>: whatever is raised in the \<^verbatim>\<open>try\<close> block, the handler writes a new
  document that holds the new entry alone; an exception of that second write propagates.
\<close>

definition save_to_json_log :: "rec_env \<Rightarrow> dict \<Rightarrow> jfile \<Rightarrow> (error + unit) \<times> jfile" where
  "save_to_json_log env evidence_entry json_file =
     (case (case load_or_new json_file of
              Inl x \<Rightarrow> (Inl x, json_file)
            | Inr data \<Rightarrow>
                (case append_entry data evidence_entry of
                   Inl x \<Rightarrow> (Inl x, json_file)
                 | Inr data' \<Rightarrow> write_json (json_write env) data' json_file)) of
        (Inr u, json_file') \<Rightarrow> (Inr (), json_file')
      | (Inl x, json_file') \<Rightarrow>
          write_json (json_rewrite env)
            (JObj [(''evidence_chain'', JArr [JObj evidence_entry])]) json_file')"

text \<open>
  \<^verbatim>\<open>save_to_evidence_log\<close>: the CSV row first (\<^verbatim>\<open>writerow\<close> raises \<^verbatim>\<open>ValueError\<close> on a
  key that is no column, after the header has been written), then the JSON document.
\<close>

definition save_to_evidence_log :: "rec_env \<Rightarrow> dict \<Rightarrow> world \<Rightarrow> (error + unit) \<times> world" where
  "save_to_evidence_log env evidence_entry w =
     (if \<not> csv_open_ok env then (Inl OSError, w)
      else
        let rows = (case csv_log w of None \<Rightarrow> [map JStr fieldnames] | Some rs \<Rightarrow> rs) in
        if \<not> list_all (\<lambda>k. k \<in> set fieldnames) (map fst evidence_entry)
        then (Inl ValueError, w\<lparr>csv_log := Some rows\<rparr>)
        else
          let w1 = w\<lparr>csv_log := Some (rows @ [csv_row evidence_entry])\<rparr> in
          (case save_to_json_log env evidence_entry (json_log w1) of
             (Inl x, json_file') \<Rightarrow> (Inl x, w1\<lparr>json_log := json_file'\<rparr>)
           | (Inr u, json_file') \<Rightarrow> (Inr (), w1\<lparr>json_log := json_file'\<rparr>)))"

subsection \<open>Chain-of-custody recorder\<close>

text \<open>The record built by the \<^verbatim>\<open>except\<close> handler of \<^verbatim>\<open>create_evidence_chain\<close>.\<close>

definition degraded_entry :: "rec_env \<Rightarrow> string \<Rightarrow> error \<Rightarrow> dict" where
  "degraded_entry env file_path e =
     [(''timestamp'', JStr (now_fail env)),
      (''filename'', JStr (basename file_path)),
      (''error'', JStr (str_of_error e)),
      (''integrity_check'', JStr ''FAIL'')]"

text \<open>The body of the \<^verbatim>\<open>try\<close> block of \<^verbatim>\<open>create_evidence_chain\<close>.\<close>

definition evidence_entry_of ::
  "lib \<Rightarrow> rec_env \<Rightarrow> string \<Rightarrow> string \<Rightarrow> nat \<Rightarrow> string \<Rightarrow> string \<Rightarrow> string \<Rightarrow> dict" where
  "evidence_entry_of L env file_path operation_type file_size hash_md5 hash_sha1 hash_sha256 =
     [(''timestamp'', JStr (now env)),
      (''filename'', JStr (basename file_path)),
      (''full_path'', JStr file_path),
      (''file_size'', JInt (int file_size)),
      (''file_size_readable'', JStr (format_file_size L file_size)),
      (''md5'', JStr hash_md5),
      (''sha1'', JStr hash_sha1),
      (''sha256'', JStr hash_sha256),
      (''operation'', JStr operation_type),
      (''operator'', JStr ''Android Collector''),
      (''device_id'', JStr ''N/A''),
      (''integrity_check'', JStr ''PASS''),
      (''notes'', JStr (operation_type @ '' via ADB backup''))]"

definition create_evidence_chain_try ::
  "lib \<Rightarrow> rec_env \<Rightarrow> world \<Rightarrow> string \<Rightarrow> string \<Rightarrow> (error + dict) \<times> world" where
  "create_evidence_chain_try L env w file_path operation_type =
     (case os_path_getsize (files w) file_path of
        Inl x \<Rightarrow> (Inl x, w)
      | Inr file_size \<Rightarrow>
     (case calculate_hash L (files w) file_path ''md5'' of
        Inl x \<Rightarrow> (Inl x, w)
      | Inr hash_md5 \<Rightarrow>
     (case calculate_hash L (files w) file_path ''sha1'' of
        Inl x \<Rightarrow> (Inl x, w)
      | Inr hash_sha1 \<Rightarrow>
     (case calculate_hash L (files w) file_path ''sha256'' of
        Inl x \<Rightarrow> (Inl x, w)
      | Inr hash_sha256 \<Rightarrow>
          let evidence_entry =
                evidence_entry_of L env file_path operation_type file_size
                  hash_md5 hash_sha1 hash_sha256 in
          (case save_to_evidence_log env evidence_entry w of
             (Inl x, w') \<Rightarrow> (Inl x, w')
           | (Inr u, w') \<Rightarrow> (Inr evidence_entry, w'))))))"

text \<open>
  \<^verbatim>\<open>create_evidence_chain\<close>: \<^verbatim>\<open>except Exception\<close> turns every exception of the body into
  the degraded record, which is returned; the handler writes nothing.
\<close>

definition create_evidence_chain ::
  "lib \<Rightarrow> rec_env \<Rightarrow> world \<Rightarrow> string \<Rightarrow> string \<Rightarrow> (error + dict) \<times> world" where
  "create_evidence_chain L env w file_path operation_type =
     (case create_evidence_chain_try L env w file_path operation_type of
        (Inl e, w') \<Rightarrow> (Inr (degraded_entry env file_path e), w')
      | (Inr evidence_entry, w') \<Rightarrow> (Inr evidence_entry, w'))"

subsection \<open>Integrity verifier\<close>

text \<open>
  What a \<^verbatim>\<open>for\<close> loop iterates over: the elements of a list, the keys of a dict, the
  characters of a string; anything else raises \<^verbatim>\<open>TypeError\<close>.
\<close>

definition py_iter :: "json \<Rightarrow> error + json list" where
  "py_iter v =
     (case v of
        JArr xs \<Rightarrow> Inr xs
      | JObj d \<Rightarrow> Inr (map (\<lambda>kv. JStr (fst kv)) d)
      | JStr s \<Rightarrow> Inr (map (\<lambda>c. JStr [c]) s)
      | _ \<Rightarrow> Inl TypeError)"

text \<open>
  The search loop of \<^verbatim>\<open>verify_integrity\<close>: it stops (\<^verbatim>\<open>break\<close>) at the first entry whose
  \<^verbatim>\<open>filename\<close> is the one looked for; \<^verbatim>\<open>entry.get\<close> raises \<^verbatim>\<open>AttributeError\<close> on an entry
  that is not a dict.
\<close>

fun find_original_entry :: "string \<Rightarrow> json list \<Rightarrow> error + dict option" where
  "find_original_entry filename [] = Inr None"
| "find_original_entry filename (entry # rest) =
     (case entry of
        JObj d \<Rightarrow>
          if dict_get d ''filename'' = JStr filename then Inr (Some d)
          else find_original_entry filename rest
      | _ \<Rightarrow> Inl AttributeError)"

definition error_result :: "string \<Rightarrow> dict" where
  "error_result msg = [(''status'', JStr ''error''), (''message'', JStr msg)]"

text \<open>
  \<^verbatim>\<open>verify_integrity\<close>. The messages are written without their accents and symbols.
  Nothing in the function catches an exception.
\<close>

definition verify_integrity :: "lib \<Rightarrow> world \<Rightarrow> string \<Rightarrow> error + dict" where
  "verify_integrity L w file_path =
     (if \<not> os_path_exists (files w) file_path then Inr (error_result ''Fichier introuvable'')
      else
        (case json_log w of
           Missing \<Rightarrow> Inr (error_result ''Aucune preuve enregistree'')
         | Corrupt \<Rightarrow> Inl JSONDecodeError
         | Parsed data \<Rightarrow>
        (case data of
           JObj d \<Rightarrow>
        (case py_iter (dict_get_default d ''evidence_chain'' (JArr [])) of
           Inl x \<Rightarrow> Inl x
         | Inr entries \<Rightarrow>
        (case find_original_entry (basename file_path) entries of
           Inl x \<Rightarrow> Inl x
         | Inr original_entry \<Rightarrow>
        (case original_entry of
           None \<Rightarrow> Inr (error_result ''Preuve originale introuvable'')
         | Some oe \<Rightarrow>
             if oe = [] then Inr (error_result ''Preuve originale introuvable'')
             else
               (case calculate_hash L (files w) file_path ''sha256'' of
                  Inl x \<Rightarrow> Inl x
                | Inr current_hash \<Rightarrow>
                    let original_hash = dict_get oe ''sha256'' in
                    if JStr current_hash = original_hash
                    then Inr [(''status'', JStr ''success''),
                              (''message'', JStr ''Integrite verifiee''),
                              (''original_hash'', original_hash),
                              (''current_hash'', JStr current_hash),
                              (''match'', JBool True)]
                    else Inr [(''status'', JStr ''warning''),
                              (''message'', JStr ''ALTERATION DETECTEE''),
                              (''original_hash'', original_hash),
                              (''current_hash'', JStr current_hash),
                              (''match'', JBool False)]))))
         | _ \<Rightarrow> Inl AttributeError)))"

text \<open>The view \<^verbatim>\<open>verify_file_integrity\<close>: no \<^verbatim>\<open>try\<close> either, the result goes to \<^verbatim>\<open>JsonResponse\<close>.\<close>

definition verify_file_integrity :: "lib \<Rightarrow> world \<Rightarrow> string \<Rightarrow> error + dict" where
  "verify_file_integrity L w file_path =
     verify_integrity L w (os_path_join ''collector/static/collected_data'' file_path)"

subsection \<open>Report assembler\<close>

text \<open>
  What the environment decides during one call of \<^verbatim>\<open>generate_forensic_report\<close>: the
  renderings of the clock (\<^verbatim>\<open>strftime('%Y%m%d-%H%M%S')\<close>, \<^verbatim>\<open>isoformat()\<close>,
  \<^verbatim>\<open>strftime('%Y-%m-d %H:%M:%S')\<close>, the later readings in \<^verbatim>\<open>extract_timeline_data\<close> and
  \<^verbatim>\<open>generate_html_report\<close>), whether \<^verbatim>\<open>os.makedirs\<close> succeeds and how the writes of the
  two documents end.
\<close>

record rep_env =
  stamp_compact :: string
  stamp_iso :: string
  stamp_date_time :: string
  timeline_iso :: string
  html_year :: int
  makedirs_ok :: bool
  report_json_write :: write_outcome
  report_html_write :: write_outcome

text \<open>Python truth value of a JSON value.\<close>

fun truthy :: "json \<Rightarrow> bool" where
  "truthy JNull = False"
| "truthy (JBool b) = b"
| "truthy (JInt n) = (n \<noteq> 0)"
| "truthy (JStr s) = (s \<noteq> [])"
| "truthy (JArr xs) = (xs \<noteq> [])"
| "truthy (JObj d) = (d \<noteq> [])"

text \<open>\<^verbatim>\<open>v[k]\<close> on a loaded value: \<^verbatim>\<open>KeyError\<close> on a dict without the key, \<^verbatim>\<open>TypeError\<close>
  on anything that is not a dict (a string key is no index).\<close>

definition subscript :: "json \<Rightarrow> string \<Rightarrow> error + json" where
  "subscript v k =
     (case v of
        JObj d \<Rightarrow> (case map_of d k of None \<Rightarrow> Inl KeyError | Some x \<Rightarrow> Inr x)
      | _ \<Rightarrow> Inl TypeError)"

text \<open>\<^verbatim>\<open>v[k1][k2]...\<close>.\<close>

fun subscript_path :: "json \<Rightarrow> string list \<Rightarrow> error + json" where
  "subscript_path v [] = Inr v"
| "subscript_path v (k # ks) =
     (case subscript v k of Inl x \<Rightarrow> Inl x | Inr v' \<Rightarrow> subscript_path v' ks)"

text \<open>Evaluating expressions from left to right: the first exception wins.\<close>

fun in_order :: "(error + 'a) list \<Rightarrow> error + 'a list" where
  "in_order [] = Inr []"
| "in_order (r # rs) =
     (case r of
        Inl x \<Rightarrow> Inl x
      | Inr v \<Rightarrow> (case in_order rs of Inl x \<Rightarrow> Inl x | Inr vs \<Rightarrow> Inr (v # vs)))"

definition count_artefacts :: "dict \<Rightarrow> json" where
  "count_artefacts extraction_data =
     JObj [(''contacts'', JInt 0), (''calls'', JInt 0), (''sms'', JInt 0),
           (''whatsapp'', JInt 0), (''images'', JInt 0), (''videos'', JInt 0),
           (''audio'', JInt 0), (''documents'', JInt 0), (''browsing_history'', JInt 0),
           (''location_data'', JInt 0), (''google_maps'', JInt 0),
           (''wifi_networks'', JInt 0), (''installed_apps'', JInt 0)]"

text \<open>\<^verbatim>\<open>"Oui" if extraction_data.get(k, False) else "Non"\<close>.\<close>

definition oui_non :: "dict \<Rightarrow> string \<Rightarrow> json" where
  "oui_non extraction_data k =
     JStr (if truthy (dict_get_default extraction_data k (JBool False)) then ''Oui'' else ''Non'')"

definition generate_findings_summary :: "dict \<Rightarrow> json" where
  "generate_findings_summary extraction_data =
     JObj [(''contacts_found'', oui_non extraction_data ''has_contacts''),
           (''call_logs_found'', oui_non extraction_data ''has_calls''),
           (''sms_messages_found'', oui_non extraction_data ''has_sms''),
           (''whatsapp_data_found'', oui_non extraction_data ''has_whatsapp''),
           (''google_maps_data_found'', oui_non extraction_data ''has_google_maps''),
           (''images_found'', oui_non extraction_data ''has_images''),
           (''location_data_found'', oui_non extraction_data ''has_location''),
           (''significant_findings'',
              dict_get_default extraction_data ''significant_findings''
                (JStr ''Aucune donnee significative''))]"

definition extract_timeline_data :: "rep_env \<Rightarrow> dict \<Rightarrow> json" where
  "extract_timeline_data env extraction_data =
     JObj [(''first_activity'', dict_get_default extraction_data ''first_activity'' (JStr ''N/A'')),
           (''last_activity'',
              dict_get_default extraction_data ''last_activity'' (JStr (timeline_iso env))),
           (''key_events'', dict_get_default extraction_data ''key_events'' (JArr [])),
           (''activity_period'', JStr ''A determiner'')]"

text \<open>
  \<^verbatim>\<open>scenario_data.get(k, d1) if scenario_data else d2\<close>: \<^verbatim>\<open>None\<close> and the empty dict
  both take the second default.
\<close>

definition scenario_field :: "dict option \<Rightarrow> string \<Rightarrow> string \<Rightarrow> string \<Rightarrow> json" where
  "scenario_field scenario_data k d1 d2 =
     (case scenario_data of
        None \<Rightarrow> JStr d2
      | Some sd \<Rightarrow> if sd = [] then JStr d2 else dict_get_default sd k (JStr d1))"

text \<open>\<^verbatim>\<open>sum(d.values())\<close>: a Python \<^verbatim>\<open>bool\<close> counts as 0 or 1, other values raise.\<close>

fun sum_values :: "json list \<Rightarrow> error + int" where
  "sum_values [] = Inr 0"
| "sum_values (v # vs) =
     (case v of
        JInt n \<Rightarrow> (case sum_values vs of Inl x \<Rightarrow> Inl x | Inr m \<Rightarrow> Inr (n + m))
      | JBool b \<Rightarrow>
          (case sum_values vs of Inl x \<Rightarrow> Inl x | Inr m \<Rightarrow> Inr ((if b then 1 else 0) + m))
      | _ \<Rightarrow> Inl TypeError)"

definition sum_of_dict :: "error + json \<Rightarrow> error + json" where
  "sum_of_dict r =
     (case r of
        Inl x \<Rightarrow> Inl x
      | Inr (JObj d) \<Rightarrow> (case sum_values (map snd d) of Inl x \<Rightarrow> Inl x | Inr n \<Rightarrow> Inr (JInt n))
      | Inr _ \<Rightarrow> Inl AttributeError)"

definition joined_items :: "error + json \<Rightarrow> error + json" where
  "joined_items r =
     (case r of
        Inl x \<Rightarrow> Inl x
      | Inr v \<Rightarrow> (case py_iter v of Inl x \<Rightarrow> Inl x | Inr recs \<Rightarrow> Inr (JArr recs)))"

text \<open>
  \<^verbatim>\<open>generate_html_report\<close>: the static text of the template is abstracted; the document
  is the sequence of the values the f-string interpolates, in template order, and an
  interpolation that raises makes the function raise.
\<close>

definition generate_html_report :: "rep_env \<Rightarrow> json \<Rightarrow> error + document" where
  "generate_html_report env report =
     (case in_order
        [subscript_path report [''report_id''],
         subscript_path report [''report_id''],
         subscript_path report [''generation_date''],
         subscript_path report [''case_details'', ''case_name''],
         subscript_path report [''case_details'', ''incident_date''],
         subscript_path report [''case_details'', ''location''],
         subscript_path report [''device_information'', ''device_model''],
         subscript_path report [''device_information'', ''android_version''],
         subscript_path report [''device_information'', ''manufacturer''],
         subscript_path report [''acquisition_details'', ''method''],
         subscript_path report [''acquisition_details'', ''tool''],
         subscript_path report [''acquisition_details'', ''date_time''],
         sum_of_dict (subscript_path report [''artefacts_extracted'']),
         subscript_path report [''findings_summary'', ''contacts_found''],
         subscript_path report [''findings_summary'', ''call_logs_found''],
         subscript_path report [''findings_summary'', ''sms_messages_found''],
         subscript_path report [''findings_summary'', ''whatsapp_data_found''],
         subscript_path report [''findings_summary'', ''google_maps_data_found''],
         subscript_path report [''evidence_chain'', ''integrity_verified''],
         subscript_path report [''evidence_chain'', ''total_files''],
         subscript_path report [''evidence_chain'', ''hashes_calculated''],
         subscript_path report [''conclusions'', ''main_findings''],
         joined_items (subscript_path report [''conclusions'', ''recommendations'']),
         subscript_path report [''disclaimer''],
         Inr (JInt (html_year env))] of
        Inl x \<Rightarrow> Inl x
      | Inr holes \<Rightarrow> Inr (HtmlDoc holes))"

text \<open>\<^verbatim>\<open>s.replace(pat, '')\<close> for a pattern that is not empty.\<close>

function str_remove :: "string \<Rightarrow> string \<Rightarrow> string" where
  "str_remove pat s =
     (if pat = [] \<or> s = [] then s
      else if take (length pat) s = pat then str_remove pat (drop (length pat) s)
      else hd s # str_remove pat (tl s))"
  by pat_completeness auto
termination
  by (relation "measure (\<lambda>(pat, s). length s)") auto

declare str_remove.simps [simp del]

definition reports_dir :: string where
  "reports_dir = ''collector/static/collected_data/forensic_reports''"

text \<open>\<^verbatim>\<open>with open(path, 'w') as f: ...\<close> on a file under \<^verbatim>\<open>forensic_reports\<close>.\<close>

definition write_report ::
  "write_outcome \<Rightarrow> string \<Rightarrow> document \<Rightarrow> world \<Rightarrow> (error + unit) \<times> world" where
  "write_report outcome path doc w =
     (case outcome of
        Written \<Rightarrow> (Inr (), w\<lparr>reports := (reports w)(path \<mapsto> doc)\<rparr>)
      | OpenFails \<Rightarrow> (Inl OSError, w)
      | DumpFails \<Rightarrow> (Inl OSError, w\<lparr>reports := (reports w)(path \<mapsto> Truncated)\<rparr>))"

definition save_report_files ::
  "rep_env \<Rightarrow> world \<Rightarrow> json \<Rightarrow> string \<Rightarrow> (error + dict) \<times> world" where
  "save_report_files env w report report_id =
     (if \<not> makedirs_ok env then (Inl OSError, w)
      else
        let json_file = os_path_join reports_dir (report_id @ ''.json'') in
        (case write_report (report_json_write env) json_file (JsonDoc report) w of
           (Inl x, w1) \<Rightarrow> (Inl x, w1)
         | (Inr u, w1) \<Rightarrow>
             let html_file = os_path_join reports_dir (report_id @ ''.html'') in
             (case generate_html_report env report of
                Inl x \<Rightarrow> (Inl x, w1)
              | Inr html_content \<Rightarrow>
                  (case write_report (report_html_write env) html_file html_content w1 of
                     (Inl x, w2) \<Rightarrow> (Inl x, w2)
                   | (Inr u, w2) \<Rightarrow>
                       let pdf_file = os_path_join reports_dir (report_id @ ''.pdf'') in
                       (Inr [(''json'', JStr (str_remove ''collector/static/'' json_file)),
                             (''html'', JStr (str_remove ''collector/static/'' html_file)),
                             (''pdf'', if reports w2 pdf_file \<noteq> None
                                       then JStr (str_remove ''collector/static/'' pdf_file)
                                       else JNull)], w2)))))"

text \<open>
  \<^verbatim>\<open>generate_forensic_report\<close>; \<^verbatim>\<open>device_info.get\<close> raises \<^verbatim>\<open>AttributeError\<close> when the
  value under \<^verbatim>\<open>device_info\<close> is not a dict. Fixed texts are written without accents.
\<close>

definition build_report :: "rep_env \<Rightarrow> dict \<Rightarrow> dict option \<Rightarrow> dict \<Rightarrow> json" where
  "build_report env extraction_data scenario_data device_info =
     JObj
      [(''report_id'', JStr (''FR-'' @ stamp_compact env)),
       (''generation_date'', JStr (stamp_iso env)),
       (''report_type'', JStr ''Rapport d'Investigation Numerique''),
       (''case_reference'',
          scenario_field scenario_data ''case_number'' ''CS-2024-001'' ''CS-NON-RENSEIGNE''),
       (''investigator'', JStr ''Android Collector Forensic Tool''),
       (''version'', JStr ''1.0''),
       (''case_details'', JObj
          [(''case_name'',
              scenario_field scenario_data ''case_name''
                ''Investigation Android'' ''Investigation Standard''),
           (''incident_date'', scenario_field scenario_data ''incident_date'' ''N/A'' ''N/A''),
           (''location'', scenario_field scenario_data ''location'' ''N/A'' ''N/A''),
           (''description'',
              scenario_field scenario_data ''description''
                ''Analyse forensique d'un appareil Android'' ''Analyse forensique standard'')]),
       (''device_information'', JObj
          [(''device_model'', dict_get_default device_info ''device_model'' (JStr ''Inconnu'')),
           (''android_version'',
              dict_get_default device_info ''android_version'' (JStr ''Inconnu'')),
           (''manufacturer'', dict_get_default device_info ''manufacturer'' (JStr ''Inconnu'')),
           (''serial_number'', dict_get_default device_info ''serial'' (JStr ''N/A'')),
           (''imei'', dict_get_default device_info ''imei'' (JStr ''N/A'')),
           (''storage_capacity'', dict_get_default device_info ''storage'' (JStr ''N/A''))]),
       (''acquisition_details'', JObj
          [(''method'', JStr ''Logical Acquisition via ADB''),
           (''tool'', JStr ''Android Collector Platform''),
           (''date_time'', JStr (stamp_date_time env)),
           (''operator'', JStr ''System Operator''),
           (''hash_verification'', JStr ''SHA256 implemented'')]),
       (''artefacts_extracted'', count_artefacts extraction_data),
       (''evidence_chain'', JObj
          [(''total_files'', dict_get_default extraction_data ''total_files'' (JInt 0)),
           (''hashes_calculated'',
              dict_get_default extraction_data ''hashes_calculated'' (JBool True)),
           (''integrity_verified'',
              dict_get_default extraction_data ''integrity_ok'' (JBool True))]),
       (''findings_summary'', generate_findings_summary extraction_data),
       (''timeline_analysis'', extract_timeline_data env extraction_data),
       (''conclusions'', JObj
          [(''main_findings'',
              dict_get_default extraction_data ''main_findings''
                (JStr ''Aucune donnee compromettante detectee'')),
           (''recommendations'', JArr
              [JStr ''Conserver les fichiers de hash pour verification future'',
               JStr ''Archiver les preuves dans un support securise'',
               JStr ''Documenter toute manipulation ulterieure''])]),
       (''disclaimer'',
          JStr ''Ce rapport a ete genere automatiquement. Pour une analyse complete, consulter un expert en forensic numerique.'')]"

definition generate_forensic_report ::
  "rep_env \<Rightarrow> world \<Rightarrow> dict \<Rightarrow> dict option \<Rightarrow> (error + json) \<times> world" where
  "generate_forensic_report env w extraction_data scenario_data =
     (case dict_get_default extraction_data ''device_info'' (JObj []) of
        JObj device_info \<Rightarrow>
          let report = build_report env extraction_data scenario_data device_info in
          (case save_report_files env w report (''FR-'' @ stamp_compact env) of
             (Inl x, w') \<Rightarrow> (Inl x, w')
           | (Inr paths, w') \<Rightarrow> (Inr report, w'))
      | _ \<Rightarrow> (Inl AttributeError, w))"

subsection \<open>Notions used to state the properties\<close>

text \<open>
  Reading all records of the ledger (the \<^verbatim>\<open>readAll\<close> of the specification): the statements
  \<^verbatim>\<open>json.load(f)\<close> and \<^verbatim>\<open>data.get("evidence_chain", [])\<close> with which both readers of the
  document, \<^verbatim>\<open>verify_integrity\<close> and \<^verbatim>\<open>view_evidence_chain\<close>, obtain the sequence, and no
  record when there is no document. What a reader then does with the sequence is not
  part of it: the view goes on to compute statistics, which raise on an empty list and
  on an entry that is not a dict.
\<close>

definition read_all :: "jfile \<Rightarrow> error + json" where
  "read_all jf =
     (case jf of
        Missing \<Rightarrow> Inr (JArr [])
      | Corrupt \<Rightarrow> Inl JSONDecodeError
      | Parsed data \<Rightarrow>
          (case data of
             JObj d \<Rightarrow> Inr (dict_get_default d ''evidence_chain'' (JArr []))
           | _ \<Rightarrow> Inl AttributeError))"

text \<open>
  The records of the ledger document in order; none when it cannot be read as a list.
\<close>

definition records_of :: "jfile \<Rightarrow> json list" where
  "records_of jf = (case read_all jf of Inr (JArr xs) \<Rightarrow> xs | _ \<Rightarrow> [])"

text \<open>
  A ledger record that is a dict and carries another file name than the given one.
\<close>

definition other_file :: "string \<Rightarrow> json \<Rightarrow> bool" where
  "other_file filename entry =
     (case entry of JObj d \<Rightarrow> dict_get d ''filename'' \<noteq> JStr filename | _ \<Rightarrow> False)"

text \<open>
  A ledger document that \<^verbatim>\<open>save_to_json_log\<close> appends to: it is absent, or it is a dict
  whose \<^verbatim>\<open>evidence_chain\<close> is a list.
\<close>

definition appendable :: "jfile \<Rightarrow> bool" where
  "appendable jf =
     (case jf of
        Missing \<Rightarrow> True
      | Parsed (JObj d) \<Rightarrow>
          (case map_of d ''evidence_chain'' of Some (JArr xs) \<Rightarrow> True | _ \<Rightarrow> False)
      | _ \<Rightarrow> False)"

text \<open>
  The rows of the CSV log, with the header row an absent file is given on its first write.
\<close>

definition csv_with_header :: "json list list option \<Rightarrow> json list list" where
  "csv_with_header c = (case c of None \<Rightarrow> [map JStr fieldnames] | Some rs \<Rightarrow> rs)"

text \<open>
  \<^verbatim>\<open>hashlib\<close> knows the three algorithms the recorder asks for.
\<close>

definition hashlib_complete :: "lib \<Rightarrow> bool" where
  "hashlib_complete L =
     (hashlib_new L ''md5'' \<noteq> None \<and> hashlib_new L ''sha1'' \<noteq> None \<and>
      hashlib_new L ''sha256'' \<noteq> None)"

text \<open>
  A sequence of calls of \<^verbatim>\<open>create_evidence_chain\<close>, each with its environment and with
  the artefact files as they are when the call is made; the ledger files are threaded
  from one call to the next. It returns what each call returned, in call order.
\<close>

fun record_calls ::
  "lib \<Rightarrow> world \<Rightarrow> (rec_env \<times> filesystem \<times> string \<times> string) list \<Rightarrow>
   (error + dict) list \<times> world" where
  "record_calls L w [] = ([], w)"
| "record_calls L w ((env, fs, p, op) # calls) =
     (case create_evidence_chain L env (w\<lparr>files := fs\<rparr>) p op of
        (r, w') \<Rightarrow> (case record_calls L w' calls of (rs, w'') \<Rightarrow> (r # rs, w'')))"

text \<open>
  A call in which nothing fails: the file can be \<^verbatim>\<open>stat\<close>ed, the CSV log is opened and
  the ledger document is written at the first attempt, in the \<^verbatim>\<open>try\<close> block of
  \<^verbatim>\<open>save_to_json_log\<close>.
\<close>

definition call_succeeds :: "rec_env \<times> filesystem \<times> string \<times> string \<Rightarrow> bool" where
  "call_succeeds c =
     (case c of (env, fs, p, op) \<Rightarrow>
        os_path_exists fs p \<and> csv_open_ok env \<and> json_write env = Written)"

text \<open>
  Where a report generated in the environment \<open>env\<close> is persisted, by extension.
\<close>

definition report_path :: "rep_env \<Rightarrow> string \<Rightarrow> string" where
  "report_path env ext =
     ''collector/static/collected_data/forensic_reports/FR-'' @ stamp_compact env @ ext"

subsection \<open>Concrete inputs\<close>

text \<open>
  An instance of the \<^verbatim>\<open>hashlib\<close> parameter for evaluating the model: it tabulates the MD5,
  SHA-1 and SHA-256 digests of the byte strings \<^verbatim>\<open>b''\<close>, \<^verbatim>\<open>b'a'\<close> and \<^verbatim>\<open>b'b'\<close>, the only
  contents of the files below, builds a variable-length hash object for \<^verbatim>\<open>shake_128\<close> and
  \<^verbatim>\<open>shake_256\<close>, and knows no other algorithm.
\<close>

definition table_digest :: "string \<Rightarrow> string \<Rightarrow> string \<Rightarrow> byte list \<Rightarrow> string" where
  "table_digest of_empty of_a of_b bs =
     (if bs = [] then of_empty else if bs = [0x61] then of_a
      else if bs = [0x62] then of_b else [])"

definition table_hashlib :: "string \<Rightarrow> hasher option" where
  "table_hashlib alg =
     (if alg = ''md5'' then
        Some (Fixed (table_digest ''d41d8cd98f00b204e9800998ecf8427e''
                ''0cc175b9c0f1b6a831c399e269772661''
                ''92eb5ffee6ae2fec3ad71c777531578f''))
      else if alg = ''sha1'' then
        Some (Fixed (table_digest ''da39a3ee5e6b4b0d3255bfef95601890afd80709''
                ''86f7e437faa5a7fce15d1ddcb9eaeaea377667b8''
                ''e9d71f5ee7c92d6dc9e92ffdad17b8bd49418f98''))
      else if alg = ''sha256'' then
        Some (Fixed (table_digest
                ''e3b0c44298fc1c149afbf4c8996fb92427ae41e4649b934ca495991b7852b855''
                ''ca978112ca1bbdcafac231b39a23dc4da786eff8147c4e72b9807785afee48bb''
                ''3e23e8160039594a33894f6564e1b1348bbd7a0088d42c4acb73eeaed59c009d''))
      else if alg = ''shake_128'' \<or> alg = ''shake_256'' then Some Variable
      else None)"

definition table_lib :: lib where
  "table_lib =
     \<lparr>hashlib_new = table_hashlib,
      format_file_size = (\<lambda>n. if n = 0 then ''0 B'' else if n = 1 then ''1.00 B'' else [])\<rparr>"

text \<open>
  Environments at the clock reading \<open>t\<close>: one in which every ledger write succeeds; one in
  which the write of the grown document fails after truncating the file and the handler's
  write of the one-record document succeeds; one in which both writes of the document fail
  in that way.
\<close>

definition io_ok :: "string \<Rightarrow> rec_env" where
  "io_ok t =
     \<lparr>now = t, now_fail = t, csv_open_ok = True, json_write = Written,
      json_rewrite = Written\<rparr>"

definition io_fallback :: "string \<Rightarrow> rec_env" where
  "io_fallback t =
     \<lparr>now = t, now_fail = t, csv_open_ok = True, json_write = DumpFails,
      json_rewrite = Written\<rparr>"


definition empty_world :: world where
  "empty_world =
     \<lparr>files = Map.empty, csv_log = None, json_log = Missing, reports = Map.empty\<rparr>"

definition put_file :: "string \<Rightarrow> node \<Rightarrow> world \<Rightarrow> world" where
  "put_file p n w = w\<lparr>files := (files w)(p \<mapsto> n)\<rparr>"

text \<open>
  The file \<^verbatim>\<open>d1/a.txt\<close> holding \<^verbatim>\<open>b'a'\<close> is recorded into an empty ledger.
\<close>

definition first_call :: "(error + dict) \<times> world" where
  "first_call =
     create_evidence_chain table_lib (io_ok ''t1'')
       (put_file ''d1/a.txt'' (RegularFile [0x61] True) empty_world) ''d1/a.txt'' ''op''"

definition after_first :: world where
  "after_first = snd first_call"


text \<open>
  Or else \<^verbatim>\<open>d1/a.txt\<close> itself is recorded again, unchanged.
\<close>

definition repeat_call :: "(error + dict) \<times> world" where
  "repeat_call =
     create_evidence_chain table_lib (io_ok ''t2'') after_first ''d1/a.txt'' ''op''"

text \<open>
  Or else \<^verbatim>\<open>d1/a.txt\<close> is overwritten with \<^verbatim>\<open>b'b'\<close> and recorded again.
\<close>

definition rerecord_call :: "(error + dict) \<times> world" where
  "rerecord_call =
     create_evidence_chain table_lib (io_ok ''t2'')
       (put_file ''d1/a.txt'' (RegularFile [0x62] True) after_first) ''d1/a.txt'' ''op''"



text \<open>
  A file that exists (\<^verbatim>\<open>stat\<close> succeeds) and cannot be opened for reading is recorded into
  an empty ledger.
\<close>

definition locked_call :: "(error + dict) \<times> world" where
  "locked_call =
     create_evidence_chain table_lib (io_ok ''t1'')
       (put_file ''d1/locked.db'' (RegularFile [0x61] False) empty_world) ''d1/locked.db'' ''op''"


text \<open>
  An artefact file in the collection root, and a ledger document that does not parse.
\<close>

definition corrupt_ledger :: world where
  "corrupt_ledger =
     (put_file ''collector/static/collected_data/a.txt'' (RegularFile [0x61] True) empty_world)
       \<lparr>json_log := Corrupt\<rparr>"

text \<open>
  Two calls, the second on a file extracted after the first: with every write succeeding,
  and with the second call's first write of the document failing.
\<close>

definition two_calls :: "(rec_env \<times> filesystem \<times> string \<times> string) list" where
  "two_calls =
     [(io_ok ''t1'', [''d1/a.txt'' \<mapsto> RegularFile [0x61] True], ''d1/a.txt'', ''op1''),
      (io_ok ''t2'', [''d1/a.txt'' \<mapsto> RegularFile [0x61] True,
                      ''d1/b.txt'' \<mapsto> RegularFile [0x62] True], ''d1/b.txt'', ''op2'')]"

definition fallback_run :: "(error + dict) list \<times> world" where
  "fallback_run =
     record_calls table_lib empty_world
       [(io_ok ''t1'', [''d1/a.txt'' \<mapsto> RegularFile [0x61] True], ''d1/a.txt'', ''op1''),
        (io_fallback ''t2'', [''d1/a.txt'' \<mapsto> RegularFile [0x61] True,
                              ''d1/b.txt'' \<mapsto> RegularFile [0x62] True], ''d1/b.txt'', ''op2'')]"

text \<open>
  A report environment in which every write succeeds; the scenario of the specification,
  the case name \<^verbatim>\<open>Affaire X\<close> and no other field; extraction data that name the device model
  and the number of files and say that contacts were found; and the report generated from
  them.
\<close>

definition report_env_ok :: rep_env where
  "report_env_ok =
     \<lparr>stamp_compact = ''20240101-120000'', stamp_iso = ''2024-01-01T12:00:00'',
      stamp_date_time = ''2024-01-d 12:00:00'', timeline_iso = ''2024-01-01T12:00:00.000150'',
      html_year = 2024, makedirs_ok = True, report_json_write = Written,
      report_html_write = Written\<rparr>"

definition affaire_x :: "dict option" where
  "affaire_x = Some [(''case_name'', JStr ''Affaire X'')]"

definition sample_extraction :: dict where
  "sample_extraction =
     [(''device_info'', JObj [(''device_model'', JStr ''Infinix Smart 5'')]),
      (''total_files'', JInt 42),
      (''has_contacts'', JBool True)]"

definition sample_report :: "(error + json) \<times> world" where
  "sample_report =
     generate_forensic_report report_env_ok empty_world sample_extraction affaire_x"

section \<open>Properties\<close>

subsection \<open>Digest engine\<close>

text \<open>
  Feeding a hash object the chunks of a file is feeding it the file: the chunks read
  with a positive chunk size concatenate to the contents.
\<close>

lemma concat_read_chunks: "0 < n \<Longrightarrow> concat (read_chunks n bs) = bs"
proof (induction n bs rule: read_chunks.induct)
  case (1 n bs)
  show ?case
  proof (cases "take n bs = []")
    case True
    with "1.prems" have "bs = []" by simp
    then show ?thesis by (simp add: read_chunks.simps)
  next
    case False
    with "1.IH" "1.prems" have "concat (read_chunks n (drop n bs)) = drop n bs" by simp
    with False show ?thesis by (subst read_chunks.simps) simp
  qed
qed

lemma fold_hash_update: "fold hash_update cs (hf, acc) = (hf, acc @ concat cs)"
  by (induction cs arbitrary: acc) (simp_all add: hash_update_def)

lemma hexdigest_chunks:
  "0 < n \<Longrightarrow>
   hexdigest (fold hash_update (read_chunks n bs) (hf, [])) =
     (case hf of Fixed f \<Rightarrow> Inr (f bs) | Variable \<Rightarrow> Inl TypeError)"
  by (simp add: fold_hash_update concat_read_chunks hexdigest_def split: hasher.splits)

lemma calculate_hash_eq:
  "calculate_hash L fs p alg =
     (case hashlib_new L alg of
        None \<Rightarrow> Inl ValueError
      | Some hf \<Rightarrow>
          (case open_rb fs p of
             Inl e \<Rightarrow> Inr ''ERROR''
           | Inr bs \<Rightarrow> (case hf of Fixed f \<Rightarrow> Inr (f bs) | Variable \<Rightarrow> Inr ''ERROR'')))"
  by (simp add: calculate_hash_def hexdigest_chunks split: option.splits sum.splits hasher.splits)

lemmas concrete =
  table_lib_def table_hashlib_def table_digest_def io_ok_def empty_world_def put_file_def

lemmas unfold_model =
  calculate_hash_eq open_rb_def os_path_exists_def os_path_getsize_def
  create_evidence_chain_def create_evidence_chain_try_def save_to_evidence_log_def
  save_to_json_log_def write_json_def load_or_new_def append_entry_def evidence_entry_of_def
  degraded_entry_def fieldnames_def csv_row_def dict_get_def dict_get_default_def
  basename_def verify_integrity_def py_iter_def error_result_def Let_def

lemma calculate_hash_returns:
  "hashlib_new L alg \<noteq> None \<Longrightarrow> \<exists>h. calculate_hash L fs p alg = Inr h"
  by (auto simp: calculate_hash_eq split: sum.splits hasher.splits)

lemma calculate_hash_readable:
  "hashlib_new L alg = Some (Fixed f) \<Longrightarrow> open_rb fs p = Inr bs \<Longrightarrow>
   calculate_hash L fs p alg = Inr (f bs)"
  by (simp add: calculate_hash_eq)

text \<open>
  C5, as the code has it: \<^verbatim>\<open>calculate_hash\<close> never fails with \<^verbatim>\<open>IOError\<close>. It raises
  \<^verbatim>\<open>ValueError\<close> when \<^verbatim>\<open>hashlib\<close> does not know the algorithm. Otherwise it returns the string
  \<^verbatim>\<open>ERROR\<close> when the file cannot be opened and read, and also when the hash object is of
  variable length, whose \<^verbatim>\<open>hexdigest()\<close> raises; and for a file that is read and a hash
  object of fixed length, it returns the hex digest of the whole contents, which it has
  fed to the hash object in chunks of 4096 bytes. It reads the file system and changes
  nothing.
\<close>

theorem calculate_hash_result:
  "calculate_hash L fs file_path algorithm =
     (case hashlib_new L algorithm of
        None \<Rightarrow> Inl ValueError
      | Some hash_func \<Rightarrow>
          (case open_rb fs file_path of
             Inl e \<Rightarrow> Inr ''ERROR''
           | Inr bs \<Rightarrow>
               (case hash_func of Fixed f \<Rightarrow> Inr (f bs) | Variable \<Rightarrow> Inr ''ERROR'')))"
  by (rule calculate_hash_eq)

text \<open>
  C5, witness: with the tabulated \<^verbatim>\<open>hashlib\<close> and a readable file holding \<^verbatim>\<open>b'a'\<close>, the
  SHA-256 digest of the file, the string \<^verbatim>\<open>ERROR\<close> for \<^verbatim>\<open>shake_128\<close>, and \<^verbatim>\<open>ValueError\<close> for
  an unknown algorithm.
\<close>

theorem calculate_hash_result_witness:
  "calculate_hash table_lib [''a.txt'' \<mapsto> RegularFile [0x61] True] ''a.txt'' ''sha256'' =
     Inr ''ca978112ca1bbdcafac231b39a23dc4da786eff8147c4e72b9807785afee48bb'' \<and>
   calculate_hash table_lib [''a.txt'' \<mapsto> RegularFile [0x61] True] ''a.txt'' ''shake_128'' =
     Inr ''ERROR'' \<and>
   calculate_hash table_lib [''a.txt'' \<mapsto> RegularFile [0x61] True] ''a.txt'' ''crc32'' =
     Inl ValueError"
proof -
  let ?fs = "[''a.txt'' \<mapsto> RegularFile [0x61] True]"
  have rd: "open_rb ?fs ''a.txt'' = Inr [0x61]"
    by (simp add: open_rb_def)
  show ?thesis
    using calculate_hash_result [of table_lib ?fs "''a.txt''" "''sha256''"]
      calculate_hash_result [of table_lib ?fs "''a.txt''" "''shake_128''"]
      calculate_hash_result [of table_lib ?fs "''a.txt''" "''crc32''"]
    by (simp add: rd concrete)
qed

text \<open>
  C5, as the specification states it, fails: on a path that cannot be opened the function
  returns a string instead of failing with \<^verbatim>\<open>IOError\<close>.
\<close>

theorem calculate_hash_no_ioerror:
  "calculate_hash table_lib Map.empty ''missing.txt'' ''sha256'' = Inr ''ERROR''"
  by (simp add: unfold_model concrete)

subsection \<open>Appending to the ledger\<close>

lemma append_entry_result:
  assumes "append_entry data e = Inr data'"
  shows "\<exists>d ys. data = JObj d \<and> map_of d ''evidence_chain'' = Some (JArr ys) \<and>
           data' = JObj (AList.update ''evidence_chain'' (JArr (ys @ [JObj e])) d)"
  using assms
  by (simp add: append_entry_def split: json.splits option.splits)

lemma write_json_ok:
  "write_json outcome data jf = (Inr u, jf') \<Longrightarrow> outcome = Written \<and> jf' = Parsed data"
  by (cases outcome) (simp_all add: write_json_def)



text \<open>The \<^verbatim>\<open>try\<close> block of \<^verbatim>\<open>save_to_json_log\<close>, as the definition nests it.\<close>

lemma save_to_json_log_try:
  "save_to_json_log env e jf =
     (case (case load_or_new jf of
              Inl x \<Rightarrow> (Inl x, jf)
            | Inr data \<Rightarrow>
                (case append_entry data e of
                   Inl x \<Rightarrow> (Inl x, jf)
                 | Inr data' \<Rightarrow> write_json (json_write env) data' jf)) of
        (Inr u, jf') \<Rightarrow> (Inr (), jf')
      | (Inl x, jf') \<Rightarrow>
          write_json (json_rewrite env) (JObj [(''evidence_chain'', JArr [JObj e])]) jf')"
  by (simp add: save_to_json_log_def)

lemma save_to_json_log_cases:
  assumes "save_to_json_log env e jf = (Inr u, jf')"
  shows "jf' = Parsed (JObj [(''evidence_chain'', JArr [JObj e])]) \<or>
         (\<exists>data data'. load_or_new jf = Inr data \<and> append_entry data e = Inr data' \<and>
            json_write env = Written \<and> jf' = Parsed data')"
proof (cases "load_or_new jf")
  case (Inl x)
  with assms show ?thesis
    by (auto simp: save_to_json_log_try dest: write_json_ok)
next
  case ld: (Inr data)
  show ?thesis
  proof (cases "append_entry data e")
    case (Inl x)
    with assms ld show ?thesis
      by (auto simp: save_to_json_log_try dest: write_json_ok)
  next
    case ap: (Inr data')
    obtain r jf1 where w1: "write_json (json_write env) data' jf = (r, jf1)"
      by (cases "write_json (json_write env) data' jf")
    show ?thesis
    proof (cases r)
      case (Inl x)
      with assms ld ap w1 show ?thesis
        by (auto simp: save_to_json_log_try dest: write_json_ok)
    next
      case (Inr v)
      with w1 have "json_write env = Written" "jf1 = Parsed data'"
        using write_json_ok [of "json_write env" data' jf v jf1] by simp_all
      with assms ld ap w1 Inr show ?thesis
        by (simp add: save_to_json_log_try)
    qed
  qed
qed



lemma records_of_load_or_new:
  assumes "load_or_new jf = Inr (JObj d)" and "map_of d ''evidence_chain'' = Some (JArr ys)"
  shows "records_of jf = ys"
  using assms
  by (auto simp: load_or_new_def records_of_def read_all_def dict_get_default_def
      split: jfile.splits)

lemma save_to_json_log_result:
  assumes "save_to_json_log env e jf = (Inr u, jf')"
  shows "\<exists>d' xs. jf' = Parsed (JObj d') \<and>
           dict_get_default d' ''evidence_chain'' (JArr []) = JArr (xs @ [JObj e]) \<and>
           (xs = records_of jf \<or> xs = [])"
proof -
  from save_to_json_log_cases [OF assms] show ?thesis
  proof
    assume fresh: "jf' = Parsed (JObj [(''evidence_chain'', JArr [JObj e])])"
    have "dict_get_default [(''evidence_chain'', JArr [JObj e])] ''evidence_chain'' (JArr []) =
            JArr ([] @ [JObj e])"
      by (simp add: dict_get_default_def)
    with fresh show ?thesis by blast
  next
    assume "\<exists>data data'. load_or_new jf = Inr data \<and> append_entry data e = Inr data' \<and>
              json_write env = Written \<and> jf' = Parsed data'"
    then obtain data data' where ld: "load_or_new jf = Inr data"
      and ap: "append_entry data e = Inr data'" and wr: "jf' = Parsed data'"
      by blast
    from append_entry_result [OF ap] obtain d ys where d: "data = JObj d"
      and ys: "map_of d ''evidence_chain'' = Some (JArr ys)"
      and d': "data' = JObj (AList.update ''evidence_chain'' (JArr (ys @ [JObj e])) d)"
      by blast
    have "records_of jf = ys"
      using ld d ys by (simp add: records_of_load_or_new)
    moreover have "dict_get_default (AList.update ''evidence_chain'' (JArr (ys @ [JObj e])) d)
                     ''evidence_chain'' (JArr []) = JArr (ys @ [JObj e])"
      by (simp add: dict_get_default_def update_conv')
    ultimately show ?thesis using wr d' by blast
  qed
qed

lemma save_to_evidence_log_ok:
  assumes "save_to_evidence_log env e w = (Inr u, w')"
  shows "files w' = files w \<and> reports w' = reports w \<and>
         save_to_json_log env e (json_log w) = (Inr (), json_log w') \<and>
         csv_log w' = Some (csv_with_header (csv_log w) @ [csv_row e])"
proof -
  obtain r jf' where sv: "save_to_json_log env e (json_log w) = (r, jf')"
    by (cases "save_to_json_log env e (json_log w)")
  from assms sv show ?thesis
    by (cases r) (auto simp: save_to_evidence_log_def Let_def csv_with_header_def
                    split: if_splits)
qed



lemma appendable_read_all:
  "appendable jf \<Longrightarrow> read_all jf = Inr (JArr (records_of jf))"
  by (auto simp: appendable_def read_all_def records_of_def dict_get_default_def
      split: jfile.splits json.splits option.splits)

lemma appendable_cases:
  assumes "appendable jf"
  obtains "jf = Missing"
  | d xs where "jf = Parsed (JObj d)" and "map_of d ''evidence_chain'' = Some (JArr xs)"
  using assms
  by (auto simp: appendable_def split: jfile.splits json.splits option.splits)

lemma appendable_updated:
  "appendable (Parsed (JObj (AList.update ''evidence_chain'' (JArr xs) d)))"
  "records_of (Parsed (JObj (AList.update ''evidence_chain'' (JArr xs) d))) = xs"
  by (simp_all add: appendable_def records_of_def read_all_def dict_get_default_def update_conv')

lemma save_to_json_log_appends:
  assumes "appendable jf" and "json_write env = Written"
  shows "\<exists>written. save_to_json_log env e jf = (Inr (), written) \<and> appendable written \<and>
           records_of written = records_of jf @ [JObj e]"
  using assms(1)
proof (cases rule: appendable_cases)
  case 1
  have "save_to_json_log env e jf =
          (Inr (), Parsed (JObj [(''evidence_chain'', JArr [JObj e])]))"
    using 1 assms(2)
    by (simp add: save_to_json_log_def write_json_def load_or_new_def append_entry_def)
  moreover have "records_of jf = []"
    using 1 by (simp add: records_of_def read_all_def)
  moreover have "appendable (Parsed (JObj [(''evidence_chain'', JArr [JObj e])]))"
    by (simp add: appendable_def)
  moreover have "records_of (Parsed (JObj [(''evidence_chain'', JArr [JObj e])])) = [JObj e]"
    by (simp add: records_of_def read_all_def dict_get_default_def)
  ultimately show ?thesis
    by simp
next
  case (2 d xs)
  have "save_to_json_log env e jf =
          (Inr (), Parsed (JObj (AList.update ''evidence_chain'' (JArr (xs @ [JObj e])) d)))"
    using 2 assms(2)
    by (simp add: save_to_json_log_def write_json_def load_or_new_def append_entry_def)
  moreover have "records_of jf = xs"
    using 2 by (simp add: records_of_def read_all_def dict_get_default_def)
  ultimately show ?thesis
    using appendable_updated by auto
qed

subsection \<open>Chain-of-custody recorder\<close>

lemma degraded_not_pass:
  "dict_get (degraded_entry env p x) ''integrity_check'' \<noteq> JStr ''PASS''"
  by (simp add: degraded_entry_def dict_get_def)


lemma entry_pass:
  "dict_get (evidence_entry_of L env p op n m s h) ''integrity_check'' = JStr ''PASS''"
  by (simp add: evidence_entry_of_def dict_get_def)

lemma entry_keys:
  "list_all (\<lambda>k. k \<in> set fieldnames) (map fst (evidence_entry_of L env p op n m s h))"
  by (simp add: evidence_entry_of_def fieldnames_def)

lemma getsize_exists: "os_path_getsize fs p = Inr n \<Longrightarrow> os_path_exists fs p"
  by (auto simp: os_path_getsize_def os_path_exists_def split: option.splits)

lemma getsize_returns:
  "os_path_exists fs p \<Longrightarrow> \<exists>n. os_path_getsize fs p = Inr n"
  by (auto simp: os_path_exists_def os_path_getsize_def split: node.splits)

text \<open>
  The body of the recorder, case by case: it raises before anything is written, or it
  reaches \<^verbatim>\<open>save_to_evidence_log\<close> with the record it has built.
\<close>

lemma create_evidence_chain_try_cases:
  obtains x where "create_evidence_chain_try L env w p op = (Inl x, w)"
  | n m s h where "os_path_getsize (files w) p = Inr n"
      and "calculate_hash L (files w) p ''md5'' = Inr m"
      and "calculate_hash L (files w) p ''sha1'' = Inr s"
      and "calculate_hash L (files w) p ''sha256'' = Inr h"
      and "create_evidence_chain_try L env w p op =
             (case save_to_evidence_log env (evidence_entry_of L env p op n m s h) w of
                (Inl x, w') \<Rightarrow> (Inl x, w')
              | (Inr u, w') \<Rightarrow> (Inr (evidence_entry_of L env p op n m s h), w'))"
proof (cases "os_path_getsize (files w) p")
  case (Inl x)
  then show ?thesis
    using that(1) by (simp add: create_evidence_chain_try_def)
next
  case n: (Inr n)
  show ?thesis
  proof (cases "calculate_hash L (files w) p ''md5''")
    case (Inl x)
    with n show ?thesis
      using that(1) by (simp add: create_evidence_chain_try_def)
  next
    case m: (Inr m)
    show ?thesis
    proof (cases "calculate_hash L (files w) p ''sha1''")
      case (Inl x)
      with n m show ?thesis
        using that(1) by (simp add: create_evidence_chain_try_def)
    next
      case s: (Inr s)
      show ?thesis
      proof (cases "calculate_hash L (files w) p ''sha256''")
        case (Inl x)
        with n m s show ?thesis
          using that(1) by (simp add: create_evidence_chain_try_def)
      next
        case h: (Inr h)
        with n m s show ?thesis
          using that(2) [of n m s h] by (simp add: create_evidence_chain_try_def Let_def)
      qed
    qed
  qed
qed



lemma create_evidence_chain_pass:
  assumes "create_evidence_chain L env w p op = (Inr e, w')"
    and "dict_get e ''integrity_check'' = JStr ''PASS''"
  shows "\<exists>n m s h. os_path_getsize (files w) p = Inr n \<and>
           calculate_hash L (files w) p ''sha256'' = Inr h \<and>
           e = evidence_entry_of L env p op n m s h \<and>
           files w' = files w \<and>
           save_to_json_log env e (json_log w) = (Inr (), json_log w')"
proof (cases rule: create_evidence_chain_try_cases [of L env w p op])
  case (1 x)
  with assms show ?thesis
    by (auto simp: create_evidence_chain_def degraded_not_pass)
next
  case (2 n m s h)
  let ?e = "evidence_entry_of L env p op n m s h"
  obtain r w1 where sv: "save_to_evidence_log env ?e w = (r, w1)"
    by (cases "save_to_evidence_log env ?e w")
  show ?thesis
  proof (cases r)
    case (Inl x)
    with assms 2(5) sv show ?thesis
      by (auto simp: create_evidence_chain_def degraded_not_pass)
  next
    case (Inr u)
    with assms 2(5) sv have "e = ?e" "w' = w1"
      by (simp_all add: create_evidence_chain_def)
    with sv Inr save_to_evidence_log_ok [of env ?e w u w1] 2(1,4) show ?thesis
      by auto
  qed
qed

lemma create_evidence_chain_appends:
  assumes app: "appendable (json_log w)"
    and ex: "os_path_exists (files w) p"
    and csv: "csv_open_ok env" and jw: "json_write env = Written"
    and lib: "hashlib_complete L"
  shows "\<exists>e w'. create_evidence_chain L env w p op = (Inr e, w') \<and>
           dict_get e ''integrity_check'' = JStr ''PASS'' \<and>
           appendable (json_log w') \<and>
           records_of (json_log w') = records_of (json_log w) @ [JObj e] \<and>
           csv_with_header (csv_log w') = csv_with_header (csv_log w) @ [csv_row e]"
proof -
  from getsize_returns [OF ex] obtain n where n: "os_path_getsize (files w) p = Inr n" ..
  from lib obtain m s h where m: "calculate_hash L (files w) p ''md5'' = Inr m"
    and s: "calculate_hash L (files w) p ''sha1'' = Inr s"
    and h: "calculate_hash L (files w) p ''sha256'' = Inr h"
    unfolding hashlib_complete_def by (meson calculate_hash_returns)
  let ?e = "evidence_entry_of L env p op n m s h"
  from save_to_json_log_appends [OF app jw, of ?e]
  obtain written where wr: "save_to_json_log env ?e (json_log w) = (Inr (), written)"
    and app': "appendable written"
    and recs: "records_of written = records_of (json_log w) @ [JObj ?e]"
    by blast
  let ?w' = "w\<lparr>csv_log := Some (csv_with_header (csv_log w) @ [csv_row ?e]),
               json_log := written\<rparr>"
  have sv: "save_to_evidence_log env ?e w = (Inr (), ?w')"
    using csv wr entry_keys [of L env p op n m s h]
    by (simp add: save_to_evidence_log_def Let_def csv_with_header_def)
  have "create_evidence_chain L env w p op = (Inr ?e, ?w')"
    using n m s h sv
    by (simp add: create_evidence_chain_def create_evidence_chain_try_def Let_def)
  with app' recs show ?thesis
    by (simp add: entry_pass csv_with_header_def)
qed

lemma record_calls_append:
  assumes "hashlib_complete L"
  shows "appendable (json_log w) \<Longrightarrow> list_all call_succeeds calls \<Longrightarrow>
     \<exists>es. fst (record_calls L w calls) = map Inr es \<and>
          length es = length calls \<and>
          appendable (json_log (snd (record_calls L w calls))) \<and>
          records_of (json_log (snd (record_calls L w calls))) =
            records_of (json_log w) @ map JObj es \<and>
          csv_with_header (csv_log (snd (record_calls L w calls))) =
            csv_with_header (csv_log w) @ map csv_row es"
proof (induction calls arbitrary: w)
  case Nil
  then show ?case by simp
next
  case (Cons c calls)
  obtain env fs p op where c: "c = (env, fs, p, op)"
    by (cases c) auto
  let ?w0 = "w\<lparr>files := fs\<rparr>"
  from Cons.prems(2) have rest: "list_all call_succeeds calls" and hd: "call_succeeds c"
    by simp_all
  from hd c have ok: "os_path_exists (files ?w0) p" "csv_open_ok env" "json_write env = Written"
    by (simp_all add: call_succeeds_def)
  have app0: "appendable (json_log ?w0)"
    using Cons.prems(1) by simp
  from create_evidence_chain_appends [OF app0 ok assms, of op]
  obtain e w' where step: "create_evidence_chain L env ?w0 p op = (Inr e, w')"
    and app': "appendable (json_log w')"
    and recs: "records_of (json_log w') = records_of (json_log ?w0) @ [JObj e]"
    and rows: "csv_with_header (csv_log w') = csv_with_header (csv_log ?w0) @ [csv_row e]"
    by blast
  from Cons.IH [OF app' rest]
  obtain es where es: "fst (record_calls L w' calls) = map Inr es"
    and len: "length es = length calls"
    and app'': "appendable (json_log (snd (record_calls L w' calls)))"
    and recs': "records_of (json_log (snd (record_calls L w' calls))) =
                  records_of (json_log w') @ map JObj es"
    and rows': "csv_with_header (csv_log (snd (record_calls L w' calls))) =
                  csv_with_header (csv_log w') @ map csv_row es"
    by blast
  have unf: "record_calls L w (c # calls) =
               (Inr e # fst (record_calls L w' calls), snd (record_calls L w' calls))"
    using step c by (simp add: split_beta)
  show ?case
    by (rule exI [of _ "e # es"]) (simp add: unf es len app'' recs' rows' recs rows)
qed




text \<open>
  C4 fails on the code: a file that exists and cannot be opened for reading is appended
  to the ledger with the placeholder \<^verbatim>\<open>ERROR\<close> as its \<^verbatim>\<open>md5\<close>, \<^verbatim>\<open>sha1\<close> and \<^verbatim>\<open>sha256\<close>, under
  \<^verbatim>\<open>integrity_check = PASS\<close>.
\<close>

theorem sentinel_recorded_as_pass:
  "fst locked_call =
     Inr [(''timestamp'', JStr ''t1''),
          (''filename'', JStr ''locked.db''),
          (''full_path'', JStr ''d1/locked.db''),
          (''file_size'', JInt 1),
          (''file_size_readable'', JStr ''1.00 B''),
          (''md5'', JStr ''ERROR''),
          (''sha1'', JStr ''ERROR''),
          (''sha256'', JStr ''ERROR''),
          (''operation'', JStr ''op''),
          (''operator'', JStr ''Android Collector''),
          (''device_id'', JStr ''N/A''),
          (''integrity_check'', JStr ''PASS''),
          (''notes'', JStr ''op via ADB backup'')] \<and>
   read_all (json_log (snd locked_call)) = Inr (JArr [JObj (projr (fst locked_call))])"
  by (simp add: locked_call_def read_all_def unfold_model concrete)

text \<open>
  C6, as the code has it: appending is monotonic as long as the document is written at
  the first attempt. Starting from a ledger document that is absent (the empty ledger)
  or holds a list of records, after N calls of \<^verbatim>\<open>create_evidence_chain\<close> in each of which the
  file is \<^verbatim>\<open>stat\<close>ed, the CSV log is opened and the document is written by the \<^verbatim>\<open>try\<close> block
  of \<^verbatim>\<open>save_to_json_log\<close>, every call has returned a record, and reading the ledger gives
  the records it held before, unchanged and in their order, followed by the N returned
  records in call order; the CSV log has grown by their N rows in the same way.
\<close>

theorem ledger_append_only:
  assumes "hashlib_complete L"
    and "appendable (json_log w)"
    and "list_all call_succeeds calls"
  shows "\<exists>es. fst (record_calls L w calls) = map Inr es \<and>
          length es = length calls \<and>
          read_all (json_log (snd (record_calls L w calls))) =
            Inr (JArr (records_of (json_log w) @ map JObj es)) \<and>
          csv_with_header (csv_log (snd (record_calls L w calls))) =
            csv_with_header (csv_log w) @ map csv_row es"
proof -
  from record_calls_append [OF assms]
  obtain es where "fst (record_calls L w calls) = map Inr es"
    "length es = length calls"
    "appendable (json_log (snd (record_calls L w calls)))"
    "records_of (json_log (snd (record_calls L w calls))) = records_of (json_log w) @ map JObj es"
    "csv_with_header (csv_log (snd (record_calls L w calls))) =
       csv_with_header (csv_log w) @ map csv_row es"
    by blast
  then show ?thesis
    by (metis appendable_read_all)
qed

text \<open>
  C6, witness: two successful calls from the empty ledger; reading the ledger returns
  exactly the two returned records, in call order.
\<close>

theorem ledger_append_only_witness:
  "hashlib_complete table_lib \<and> appendable (json_log empty_world) \<and>
   list_all call_succeeds two_calls \<and>
   (\<exists>e1 e2. fst (record_calls table_lib empty_world two_calls) = [Inr e1, Inr e2] \<and>
      read_all (json_log (snd (record_calls table_lib empty_world two_calls))) =
        Inr (JArr [JObj e1, JObj e2]))"
proof -
  have h1: "hashlib_complete table_lib"
    by (simp add: hashlib_complete_def concrete)
  have h2: "appendable (json_log empty_world)"
    by (simp add: appendable_def empty_world_def)
  have h3: "list_all call_succeeds two_calls"
    by (simp add: two_calls_def call_succeeds_def os_path_exists_def io_ok_def)
  have r0: "records_of (json_log empty_world) = []"
    by (simp add: records_of_def read_all_def empty_world_def)
  from ledger_append_only [OF h1 h2 h3]
  obtain es where es: "fst (record_calls table_lib empty_world two_calls) = map Inr es"
    and len: "length es = length two_calls"
    and rd: "read_all (json_log (snd (record_calls table_lib empty_world two_calls))) =
               Inr (JArr (records_of (json_log empty_world) @ map JObj es))"
    by blast
  from len obtain e1 e2 where "es = [e1, e2]"
    by (cases es; cases "tl es") (auto simp: two_calls_def)
  with es rd r0 h1 h2 h3 show ?thesis
    by auto
qed

text \<open>
  C6, as the specification states it, fails: from the empty ledger, two calls both return
  a \<^verbatim>\<open>PASS\<close> record, and reading the ledger afterwards gives one record, the second. In
  the second call the write of the grown document failed and the handler of
  \<^verbatim>\<open>save_to_json_log\<close> wrote a new document holding the new record alone, which removed
  the first.
\<close>

theorem fallback_drops_records:
  "length (fst fallback_run) = 2 \<and>
   dict_get (projr (fst fallback_run ! 0)) ''integrity_check'' = JStr ''PASS'' \<and>
   dict_get (projr (fst fallback_run ! 1)) ''integrity_check'' = JStr ''PASS'' \<and>
   dict_get (projr (fst fallback_run ! 0)) ''filename'' = JStr ''a.txt'' \<and>
   dict_get (projr (fst fallback_run ! 1)) ''filename'' = JStr ''b.txt'' \<and>
   read_all (json_log (snd fallback_run)) = Inr (JArr [JObj (projr (fst fallback_run ! 1))])"
  by (simp add: fallback_run_def io_fallback_def read_all_def unfold_model concrete)

subsection \<open>Integrity verifier\<close>

lemma find_original_entry_first:
  "list_all (other_file fn) pre \<Longrightarrow> dict_get e ''filename'' = JStr fn \<Longrightarrow>
   find_original_entry fn (pre @ JObj e # post) = Inr (Some e)"
  by (induction pre) (auto simp: other_file_def split: json.splits)

lemma verify_integrity_at_entry:
  assumes ex: "os_path_exists (files w) p"
    and doc: "json_log w = Parsed (JObj d)"
    and chain: "dict_get_default d ''evidence_chain'' (JArr []) = JArr (pre @ JObj e # post)"
    and pre: "list_all (other_file (basename p)) pre"
    and name: "dict_get e ''filename'' = JStr (basename p)"
    and cur: "calculate_hash L (files w) p ''sha256'' = Inr current_hash"
  shows "verify_integrity L w p =
     Inr [(''status'', JStr (if JStr current_hash = dict_get e ''sha256''
                             then ''success'' else ''warning'')),
          (''message'', JStr (if JStr current_hash = dict_get e ''sha256''
                              then ''Integrite verifiee'' else ''ALTERATION DETECTEE'')),
          (''original_hash'', dict_get e ''sha256''),
          (''current_hash'', JStr current_hash),
          (''match'', JBool (JStr current_hash = dict_get e ''sha256''))]"
proof -
  have ne: "e \<noteq> []" using name by (auto simp: dict_get_def)
  have found: "find_original_entry (basename p) (pre @ JObj e # post) = Inr (Some e)"
    using pre name by (rule find_original_entry_first)
  show ?thesis
    using ex ne by (simp add: verify_integrity_def doc chain py_iter_def found cur Let_def)
qed




text \<open>
  C2, as the code has it: let a file that can be read be recorded, \<^verbatim>\<open>create_evidence_chain\<close>
  returning a \<^verbatim>\<open>PASS\<close> record, with a SHA-256 of fixed length. If the ledger held no record
  of the same file name before the call, or if the first record of that file name it held
  carries the digest of the file as it is now (the records before that one being dicts
  with another file name), then \<^verbatim>\<open>verify_integrity\<close> on the world the call left returns
  the success outcome with \<^verbatim>\<open>match\<close> true and \<^verbatim>\<open>original_hash\<close> equal to \<^verbatim>\<open>current_hash\<close>, both
  the SHA-256 digest of the file, which is also the \<^verbatim>\<open>sha256\<close> of the returned record.
\<close>

theorem verify_after_record:
  assumes "create_evidence_chain L env w p op = (Inr e, w')"
    and "dict_get e ''integrity_check'' = JStr ''PASS''"
    and "open_rb (files w) p = Inr bs"
    and "hashlib_new L ''sha256'' = Some (Fixed sha256)"
    and "list_all (other_file (basename p)) (records_of (json_log w)) \<or>
         (\<exists>pre e0 post.
            records_of (json_log w) = pre @ JObj e0 # post \<and>
            list_all (other_file (basename p)) pre \<and>
            dict_get e0 ''filename'' = JStr (basename p) \<and>
            dict_get e0 ''sha256'' = JStr (sha256 bs))"
  shows "dict_get e ''sha256'' = JStr (sha256 bs) \<and>
         verify_integrity L w' p =
           Inr [(''status'', JStr ''success''),
                (''message'', JStr ''Integrite verifiee''),
                (''original_hash'', JStr (sha256 bs)),
                (''current_hash'', JStr (sha256 bs)),
                (''match'', JBool True)]"
proof -
  from create_evidence_chain_pass [OF assms(1,2)]
  obtain n m s h where n: "os_path_getsize (files w) p = Inr n"
    and h: "calculate_hash L (files w) p ''sha256'' = Inr h"
    and e: "e = evidence_entry_of L env p op n m s h"
    and fs: "files w' = files w"
    and sv: "save_to_json_log env e (json_log w) = (Inr (), json_log w')"
    by blast
  have hd: "h = sha256 bs"
    using h calculate_hash_readable [OF assms(4,3)] by simp
  from save_to_json_log_result [OF sv]
  obtain d' xs where doc: "json_log w' = Parsed (JObj d')"
    and chain: "dict_get_default d' ''evidence_chain'' (JArr []) = JArr (xs @ [JObj e])"
    and xs: "xs = records_of (json_log w) \<or> xs = []"
    by auto
  have name: "dict_get e ''filename'' = JStr (basename p)"
    and sha: "dict_get e ''sha256'' = JStr (sha256 bs)"
    by (simp_all add: e hd evidence_entry_of_def dict_get_def)
  have ex: "os_path_exists (files w') p"
    using n fs by (simp add: getsize_exists)
  have cur: "calculate_hash L (files w') p ''sha256'' = Inr (sha256 bs)"
    using h hd fs by simp
  have "\<exists>pre e0 post. xs @ [JObj e] = pre @ JObj e0 # post \<and>
          list_all (other_file (basename p)) pre \<and>
          dict_get e0 ''filename'' = JStr (basename p) \<and>
          dict_get e0 ''sha256'' = JStr (sha256 bs)"
  proof (cases "list_all (other_file (basename p)) xs")
    case True
    then have "xs @ [JObj e] = xs @ JObj e # [] \<and> list_all (other_file (basename p)) xs"
      by simp
    with name sha show ?thesis by blast
  next
    case False
    with xs assms(5) obtain pre e0 post where "xs = pre @ JObj e0 # post"
      and "list_all (other_file (basename p)) pre"
      and "dict_get e0 ''filename'' = JStr (basename p)"
      and "dict_get e0 ''sha256'' = JStr (sha256 bs)"
      by auto
    then have "xs @ [JObj e] = pre @ JObj e0 # (post @ [JObj e])"
      by simp
    with \<open>list_all (other_file (basename p)) pre\<close>
      \<open>dict_get e0 ''filename'' = JStr (basename p)\<close>
      \<open>dict_get e0 ''sha256'' = JStr (sha256 bs)\<close>
    show ?thesis by blast
  qed
  then obtain pre e0 post where split: "xs @ [JObj e] = pre @ JObj e0 # post"
    and pre: "list_all (other_file (basename p)) pre"
    and name0: "dict_get e0 ''filename'' = JStr (basename p)"
    and sha0: "dict_get e0 ''sha256'' = JStr (sha256 bs)"
    by blast
  have chain': "dict_get_default d' ''evidence_chain'' (JArr []) = JArr (pre @ JObj e0 # post)"
    using chain split by simp
  show ?thesis
    using verify_integrity_at_entry [OF ex doc chain' pre name0 cur] sha sha0 by simp
qed

text \<open>
  C2, witness: \<^verbatim>\<open>d1/a.txt\<close>, already recorded once, is recorded again unchanged and verified
  at once; the ledger then holds two records of its name, and the first carries its
  digest.
\<close>

theorem verify_after_record_witness:
  "dict_get (projr (fst repeat_call)) ''integrity_check'' = JStr ''PASS'' \<and>
   open_rb (files after_first) ''d1/a.txt'' = Inr [0x61] \<and>
   length (records_of (json_log (snd repeat_call))) = 2 \<and>
   verify_integrity table_lib (snd repeat_call) ''d1/a.txt'' =
     Inr [(''status'', JStr ''success''),
          (''message'', JStr ''Integrite verifiee''),
          (''original_hash'', JStr
             ''ca978112ca1bbdcafac231b39a23dc4da786eff8147c4e72b9807785afee48bb''),
          (''current_hash'', JStr
             ''ca978112ca1bbdcafac231b39a23dc4da786eff8147c4e72b9807785afee48bb''),
          (''match'', JBool True)]"
proof -
  let ?sha = "table_digest
                ''e3b0c44298fc1c149afbf4c8996fb92427ae41e4649b934ca495991b7852b855''
                ''ca978112ca1bbdcafac231b39a23dc4da786eff8147c4e72b9807785afee48bb''
                ''3e23e8160039594a33894f6564e1b1348bbd7a0088d42c4acb73eeaed59c009d''"
  have ok: "\<exists>e. fst repeat_call = Inr e"
    by (simp add: repeat_call_def after_first_def first_call_def unfold_model concrete)
  then have h1: "create_evidence_chain table_lib (io_ok ''t2'') after_first ''d1/a.txt'' ''op'' =
                   (Inr (projr (fst repeat_call)), snd repeat_call)"
    by (auto simp: repeat_call_def prod_eq_iff)
  have h2: "dict_get (projr (fst repeat_call)) ''integrity_check'' = JStr ''PASS''"
    by (simp add: repeat_call_def after_first_def first_call_def unfold_model concrete)
  have h3: "open_rb (files after_first) ''d1/a.txt'' = Inr [0x61]"
    by (simp add: after_first_def first_call_def unfold_model concrete)
  have h4: "hashlib_new table_lib ''sha256'' = Some (Fixed ?sha)"
    by (simp add: concrete)
  have recs: "records_of (json_log after_first) = [] @ JObj (projr (fst first_call)) # []"
    by (simp add: after_first_def first_call_def records_of_def read_all_def unfold_model
          concrete)
  have e0: "dict_get (projr (fst first_call)) ''filename'' = JStr (basename ''d1/a.txt'')"
    "dict_get (projr (fst first_call)) ''sha256'' = JStr (?sha [0x61])"
    by (simp_all add: first_call_def unfold_model concrete)
  have h5: "list_all (other_file (basename ''d1/a.txt'')) (records_of (json_log after_first)) \<or>
         (\<exists>pre e0 post.
            records_of (json_log after_first) = pre @ JObj e0 # post \<and>
            list_all (other_file (basename ''d1/a.txt'')) pre \<and>
            dict_get e0 ''filename'' = JStr (basename ''d1/a.txt'') \<and>
            dict_get e0 ''sha256'' = JStr (?sha [0x61]))"
    using recs e0 by (intro disjI2 exI [of _ "[]"] exI [of _ "projr (fst first_call)"]) simp
  have two: "length (records_of (json_log (snd repeat_call))) = 2"
    by (simp add: repeat_call_def after_first_def first_call_def records_of_def read_all_def
          unfold_model concrete)
  have dig: "?sha [0x61] = ''ca978112ca1bbdcafac231b39a23dc4da786eff8147c4e72b9807785afee48bb''"
    by (simp add: table_digest_def)
  from verify_after_record [OF h1 h2 h3 h4 h5] h2 h3 two show ?thesis
    unfolding dig by simp
qed

text \<open>
  C2, as the specification states it, fails: \<^verbatim>\<open>d1/a.txt\<close> is recorded, overwritten and
  recorded again; the second call returns a \<^verbatim>\<open>PASS\<close> record, and verifying the file
  immediately afterwards, unmodified since that call, reports an alteration, because the
  reference is the record of the first call.
\<close>

theorem verify_after_rerecord_warns:
  "dict_get (projr (fst rerecord_call)) ''integrity_check'' = JStr ''PASS'' \<and>
   verify_integrity table_lib (snd rerecord_call) ''d1/a.txt'' =
     Inr [(''status'', JStr ''warning''),
          (''message'', JStr ''ALTERATION DETECTEE''),
          (''original_hash'', JStr
             ''ca978112ca1bbdcafac231b39a23dc4da786eff8147c4e72b9807785afee48bb''),
          (''current_hash'', JStr
             ''3e23e8160039594a33894f6564e1b1348bbd7a0088d42c4acb73eeaed59c009d''),
          (''match'', JBool False)]"
  by (simp add: rerecord_call_def after_first_def first_call_def unfold_model concrete)

text \<open>
  C7 fails on the code: with a ledger document that exists and does not load, the view
  \<^verbatim>\<open>verify_file_integrity\<close> returns no error result; the exception of \<^verbatim>\<open>json.load\<close> leaves
  \<^verbatim>\<open>verify_integrity\<close> and the view uncaught.
\<close>

theorem verify_corrupt_ledger_raises:
  "verify_file_integrity table_lib corrupt_ledger ''a.txt'' = Inl JSONDecodeError"
  by (simp add: verify_file_integrity_def os_path_join_def corrupt_ledger_def
        verify_integrity_def os_path_exists_def concrete)

text \<open>
  C8, as the code has it: a result of \<^verbatim>\<open>verify_integrity\<close> is either an error result,
  which carries a status and a message and no digest, or a success or warning result,
  which carries the recorded digest, the recomputed digest and whether they are equal;
  the status is \<^verbatim>\<open>success\<close> exactly when they are.
\<close>

theorem verify_integrity_outcomes:
  assumes "verify_integrity L w p = Inr r"
  shows "(\<exists>msg. r = [(''status'', JStr ''error''), (''message'', JStr msg)]) \<or>
         (\<exists>st msg orig cur.
            r = [(''status'', JStr st), (''message'', JStr msg), (''original_hash'', orig),
                 (''current_hash'', JStr cur), (''match'', JBool (JStr cur = orig))] \<and>
            st = (if JStr cur = orig then ''success'' else ''warning'') \<and>
            calculate_hash L (files w) p ''sha256'' = Inr cur)"
  using assms
  by (auto simp: verify_integrity_def error_result_def Let_def
      split: if_splits jfile.splits json.splits sum.splits option.splits)

text \<open>
  C8, witness: the success result of verifying \<^verbatim>\<open>d1/a.txt\<close> after its first recording.
\<close>

theorem verify_integrity_outcomes_witness:
  "verify_integrity table_lib after_first ''d1/a.txt'' =
     Inr [(''status'', JStr ''success''),
          (''message'', JStr ''Integrite verifiee''),
          (''original_hash'', JStr
             ''ca978112ca1bbdcafac231b39a23dc4da786eff8147c4e72b9807785afee48bb''),
          (''current_hash'', JStr
             ''ca978112ca1bbdcafac231b39a23dc4da786eff8147c4e72b9807785afee48bb''),
          (''match'', JBool True)] \<and>
   calculate_hash table_lib (files after_first) ''d1/a.txt'' ''sha256'' =
     Inr ''ca978112ca1bbdcafac231b39a23dc4da786eff8147c4e72b9807785afee48bb''"
proof -
  have h: "verify_integrity table_lib after_first ''d1/a.txt'' =
     Inr [(''status'', JStr ''success''),
          (''message'', JStr ''Integrite verifiee''),
          (''original_hash'', JStr
             ''ca978112ca1bbdcafac231b39a23dc4da786eff8147c4e72b9807785afee48bb''),
          (''current_hash'', JStr
             ''ca978112ca1bbdcafac231b39a23dc4da786eff8147c4e72b9807785afee48bb''),
          (''match'', JBool True)]"
    by (simp add: after_first_def first_call_def unfold_model concrete)
  from verify_integrity_outcomes [OF h] h show ?thesis
    by auto
qed

text \<open>
  C8, as the specification states it, fails: verifying a file that has no ledger record
  returns a status and a message only.
\<close>

theorem error_result_without_digests:
  "verify_integrity table_lib (put_file ''d1/b.txt'' (RegularFile [0x62] True) after_first)
     ''d1/b.txt'' =
     Inr [(''status'', JStr ''error''), (''message'', JStr ''Preuve originale introuvable'')]"
  by (simp add: after_first_def first_call_def unfold_model concrete)

text \<open>
  C9 fails on the code: the file that cannot be opened was recorded with the placeholder
  \<^verbatim>\<open>ERROR\<close>; on verification the digest cannot be recomputed either, \<^verbatim>\<open>calculate_hash\<close>
  returns \<^verbatim>\<open>ERROR\<close> again, and the two placeholders compare equal: the outcome is
  the success result with \<^verbatim>\<open>match\<close> true.
\<close>

theorem verified_without_digest:
  "verify_integrity table_lib (snd locked_call) ''d1/locked.db'' =
     Inr [(''status'', JStr ''success''),
          (''message'', JStr ''Integrite verifiee''),
          (''original_hash'', JStr ''ERROR''),
          (''current_hash'', JStr ''ERROR''),
          (''match'', JBool True)]"
  by (simp add: locked_call_def unfold_model concrete)

subsection \<open>Report assembler\<close>

lemma generate_html_report_built:
  "generate_html_report env (build_report env ed sd di) =
     Inr (HtmlDoc
       [JStr (''FR-'' @ stamp_compact env),
        JStr (''FR-'' @ stamp_compact env),
        JStr (stamp_iso env),
        scenario_field sd ''case_name'' ''Investigation Android'' ''Investigation Standard'',
        scenario_field sd ''incident_date'' ''N/A'' ''N/A'',
        scenario_field sd ''location'' ''N/A'' ''N/A'',
        dict_get_default di ''device_model'' (JStr ''Inconnu''),
        dict_get_default di ''android_version'' (JStr ''Inconnu''),
        dict_get_default di ''manufacturer'' (JStr ''Inconnu''),
        JStr ''Logical Acquisition via ADB'',
        JStr ''Android Collector Platform'',
        JStr (stamp_date_time env),
        JInt 0,
        oui_non ed ''has_contacts'',
        oui_non ed ''has_calls'',
        oui_non ed ''has_sms'',
        oui_non ed ''has_whatsapp'',
        oui_non ed ''has_google_maps'',
        dict_get_default ed ''integrity_ok'' (JBool True),
        dict_get_default ed ''total_files'' (JInt 0),
        dict_get_default ed ''hashes_calculated'' (JBool True),
        dict_get_default ed ''main_findings'' (JStr ''Aucune donnee compromettante detectee''),
        JArr [JStr ''Conserver les fichiers de hash pour verification future'',
              JStr ''Archiver les preuves dans un support securise'',
              JStr ''Documenter toute manipulation ulterieure''],
        JStr ''Ce rapport a ete genere automatiquement. Pour une analyse complete, consulter un expert en forensic numerique.'',
        JInt (html_year env)])"
  by (simp add: generate_html_report_def build_report_def subscript_def count_artefacts_def
        generate_findings_summary_def sum_of_dict_def joined_items_def py_iter_def)

lemma save_report_files_built:
  assumes io: "makedirs_ok env" "report_json_write env = Written"
      "report_html_write env = Written"
    and html: "generate_html_report env report = Inr html"
  shows "\<exists>paths w'. save_report_files env w report (''FR-'' @ stamp_compact env) = (Inr paths, w') \<and>
           reports w' (report_path env ''.json'') = Some (JsonDoc report) \<and>
           reports w' (report_path env ''.html'') = Some html"
proof -
  have j: "os_path_join reports_dir ((''FR-'' @ stamp_compact env) @ ''.json'') =
             report_path env ''.json''"
    and h: "os_path_join reports_dir ((''FR-'' @ stamp_compact env) @ ''.html'') =
             report_path env ''.html''"
    by (simp_all add: os_path_join_def reports_dir_def report_path_def)
  have ne: "report_path env ''.html'' \<noteq> report_path env ''.json''"
    by (simp add: report_path_def)
  show ?thesis
    unfolding save_report_files_def Let_def j h
    using io html ne by (simp add: write_report_def)
qed

lemma generate_forensic_report_built:
  assumes io: "makedirs_ok env" "report_json_write env = Written"
      "report_html_write env = Written"
    and di: "dict_get_default extraction_data ''device_info'' (JObj []) = JObj device_info"
    and html: "generate_html_report env
                 (build_report env extraction_data scenario_data device_info) = Inr html"
  shows "\<exists>w'.
           generate_forensic_report env w extraction_data scenario_data =
             (Inr (build_report env extraction_data scenario_data device_info), w') \<and>
           reports w' (report_path env ''.json'') =
             Some (JsonDoc (build_report env extraction_data scenario_data device_info)) \<and>
           reports w' (report_path env ''.html'') = Some html"
proof -
  let ?report = "build_report env extraction_data scenario_data device_info"
  from save_report_files_built [OF io html, of w]
  obtain paths w' where "save_report_files env w ?report (''FR-'' @ stamp_compact env) = (Inr paths, w')"
    and "reports w' (report_path env ''.json'') = Some (JsonDoc ?report)"
    and "reports w' (report_path env ''.html'') = Some html"
    by blast
  then show ?thesis
    by (auto simp: generate_forensic_report_def di Let_def)
qed

lemma report_case_fields:
  "subscript_path (build_report env ed sd di) [''report_id''] = Inr (JStr (''FR-'' @ stamp_compact env))"
  "subscript_path (build_report env ed sd di) [''case_reference''] =
     Inr (scenario_field sd ''case_number'' ''CS-2024-001'' ''CS-NON-RENSEIGNE'')"
  "subscript_path (build_report env ed sd di) [''case_details'', ''case_name''] =
     Inr (scenario_field sd ''case_name'' ''Investigation Android'' ''Investigation Standard'')"
  "subscript_path (build_report env ed sd di) [''case_details'', ''incident_date''] =
     Inr (scenario_field sd ''incident_date'' ''N/A'' ''N/A'')"
  "subscript_path (build_report env ed sd di) [''case_details'', ''location''] =
     Inr (scenario_field sd ''location'' ''N/A'' ''N/A'')"
  "subscript_path (build_report env ed sd di) [''case_details'', ''description''] =
     Inr (scenario_field sd ''description''
            ''Analyse forensique d'un appareil Android'' ''Analyse forensique standard'')"
  by (simp_all add: build_report_def subscript_def)

lemma report_device_fields:
  "subscript_path (build_report env ed sd di) [''device_information'', ''device_model''] =
     Inr (dict_get_default di ''device_model'' (JStr ''Inconnu''))"
  "subscript_path (build_report env ed sd di) [''device_information'', ''android_version''] =
     Inr (dict_get_default di ''android_version'' (JStr ''Inconnu''))"
  "subscript_path (build_report env ed sd di) [''device_information'', ''manufacturer''] =
     Inr (dict_get_default di ''manufacturer'' (JStr ''Inconnu''))"
  "subscript_path (build_report env ed sd di) [''device_information'', ''serial_number''] =
     Inr (dict_get_default di ''serial'' (JStr ''N/A''))"
  "subscript_path (build_report env ed sd di) [''device_information'', ''imei''] =
     Inr (dict_get_default di ''imei'' (JStr ''N/A''))"
  "subscript_path (build_report env ed sd di) [''device_information'', ''storage_capacity''] =
     Inr (dict_get_default di ''storage'' (JStr ''N/A''))"
  by (simp_all add: build_report_def subscript_def)

lemma report_extraction_fields:
  "subscript_path (build_report env ed sd di) [''evidence_chain'', ''total_files''] =
     Inr (dict_get_default ed ''total_files'' (JInt 0))"
  "subscript_path (build_report env ed sd di) [''evidence_chain'', ''hashes_calculated''] =
     Inr (dict_get_default ed ''hashes_calculated'' (JBool True))"
  "subscript_path (build_report env ed sd di) [''evidence_chain'', ''integrity_verified''] =
     Inr (dict_get_default ed ''integrity_ok'' (JBool True))"
  "subscript_path (build_report env ed sd di) [''findings_summary'', ''significant_findings''] =
     Inr (dict_get_default ed ''significant_findings'' (JStr ''Aucune donnee significative''))"
  "subscript_path (build_report env ed sd di) [''timeline_analysis'', ''first_activity''] =
     Inr (dict_get_default ed ''first_activity'' (JStr ''N/A''))"
  "subscript_path (build_report env ed sd di) [''timeline_analysis'', ''key_events''] =
     Inr (dict_get_default ed ''key_events'' (JArr []))"
  "subscript_path (build_report env ed sd di) [''conclusions'', ''main_findings''] =
     Inr (dict_get_default ed ''main_findings'' (JStr ''Aucune donnee compromettante detectee''))"
  by (simp_all add: build_report_def subscript_def generate_findings_summary_def
        extract_timeline_data_def)

lemma report_presence_fields:
  "subscript_path (build_report env ed sd di) [''findings_summary'', ''contacts_found''] =
     Inr (oui_non ed ''has_contacts'')"
  "subscript_path (build_report env ed sd di) [''findings_summary'', ''call_logs_found''] =
     Inr (oui_non ed ''has_calls'')"
  "subscript_path (build_report env ed sd di) [''findings_summary'', ''sms_messages_found''] =
     Inr (oui_non ed ''has_sms'')"
  "subscript_path (build_report env ed sd di) [''findings_summary'', ''whatsapp_data_found''] =
     Inr (oui_non ed ''has_whatsapp'')"
  "subscript_path (build_report env ed sd di) [''findings_summary'', ''google_maps_data_found''] =
     Inr (oui_non ed ''has_google_maps'')"
  "subscript_path (build_report env ed sd di) [''findings_summary'', ''images_found''] =
     Inr (oui_non ed ''has_images'')"
  "subscript_path (build_report env ed sd di) [''findings_summary'', ''location_data_found''] =
     Inr (oui_non ed ''has_location'')"
  by (simp_all add: build_report_def subscript_def generate_findings_summary_def)

lemma report_artefacts:
  "subscript_path (build_report env ed sd di) [''artefacts_extracted''] =
     Inr (JObj [(''contacts'', JInt 0), (''calls'', JInt 0), (''sms'', JInt 0),
                (''whatsapp'', JInt 0), (''images'', JInt 0), (''videos'', JInt 0),
                (''audio'', JInt 0), (''documents'', JInt 0), (''browsing_history'', JInt 0),
                (''location_data'', JInt 0), (''google_maps'', JInt 0),
                (''wifi_networks'', JInt 0), (''installed_apps'', JInt 0)])"
  by (simp add: build_report_def subscript_def count_artefacts_def)

text \<open>
  C10, as the code has it. Let the three writes succeed and the value under
  \<^verbatim>\<open>device_info\<close>, if any, be a dict. Write \<open>case_field k d1 d2\<close> for the case field \<open>k\<close> as
  supplied, or its default when omitted (\<open>d1\<close> when case metadata are given without the
  field, \<open>d2\<close> when none are given), and \<open>flag k\<close> for the text \<^verbatim>\<open>Oui\<close> when the extraction
  data supply a true value under \<open>k\<close> and \<^verbatim>\<open>Non\<close> when they supply a false one or none.
  Then \<^verbatim>\<open>generate_forensic_report\<close> returns a report whose identifier is \<^verbatim>\<open>FR-\<close> and the
  compact time stamp, and persists it as the JSON document
  \<^verbatim>\<open>forensic_reports/<report_id>.json\<close> and as the HTML document
  \<^verbatim>\<open>forensic_reports/<report_id>.html\<close> under the collection root, the latter interpolating
  the values listed. The case fields, the device fields, the ledger statistics, the
  findings text, the timeline fields and the main findings of the report equal the
  supplied inputs, with the defaults of the code when omitted. The presence flags do not
  equal the supplied booleans: each is \<open>flag\<close> of its input. The artefact counts are zero
  for every category, whatever the inputs.
\<close>

theorem generate_forensic_report_structure:
  assumes "makedirs_ok env"
    and "report_json_write env = Written"
    and "report_html_write env = Written"
    and "dict_get_default extraction_data ''device_info'' (JObj []) = JObj device_info"
    and "case_field =
           (\<lambda>k d1 d2. case scenario_data of
                         None \<Rightarrow> JStr d2
                       | Some sd \<Rightarrow> if sd = [] then JStr d2 else dict_get_default sd k (JStr d1))"
    and "flag =
           (\<lambda>k. JStr (if truthy (dict_get_default extraction_data k (JBool False))
                       then ''Oui'' else ''Non''))"
  shows "\<exists>report w'.
     generate_forensic_report env w extraction_data scenario_data = (Inr report, w') \<and>
     reports w' (report_path env ''.json'') = Some (JsonDoc report) \<and>
     reports w' (report_path env ''.html'') =
       Some (HtmlDoc
         [JStr (''FR-'' @ stamp_compact env),
          JStr (''FR-'' @ stamp_compact env),
          JStr (stamp_iso env),
          case_field ''case_name'' ''Investigation Android'' ''Investigation Standard'',
          case_field ''incident_date'' ''N/A'' ''N/A'',
          case_field ''location'' ''N/A'' ''N/A'',
          dict_get_default device_info ''device_model'' (JStr ''Inconnu''),
          dict_get_default device_info ''android_version'' (JStr ''Inconnu''),
          dict_get_default device_info ''manufacturer'' (JStr ''Inconnu''),
          JStr ''Logical Acquisition via ADB'',
          JStr ''Android Collector Platform'',
          JStr (stamp_date_time env),
          JInt 0,
          flag ''has_contacts'',
          flag ''has_calls'',
          flag ''has_sms'',
          flag ''has_whatsapp'',
          flag ''has_google_maps'',
          dict_get_default extraction_data ''integrity_ok'' (JBool True),
          dict_get_default extraction_data ''total_files'' (JInt 0),
          dict_get_default extraction_data ''hashes_calculated'' (JBool True),
          dict_get_default extraction_data ''main_findings''
            (JStr ''Aucune donnee compromettante detectee''),
          JArr [JStr ''Conserver les fichiers de hash pour verification future'',
                JStr ''Archiver les preuves dans un support securise'',
                JStr ''Documenter toute manipulation ulterieure''],
          JStr ''Ce rapport a ete genere automatiquement. Pour une analyse complete, consulter un expert en forensic numerique.'',
          JInt (html_year env)]) \<and>
     subscript_path report [''report_id''] = Inr (JStr (''FR-'' @ stamp_compact env)) \<and>
     subscript_path report [''case_reference''] =
       Inr (case_field ''case_number'' ''CS-2024-001'' ''CS-NON-RENSEIGNE'') \<and>
     subscript_path report [''case_details'', ''case_name''] =
       Inr (case_field ''case_name'' ''Investigation Android'' ''Investigation Standard'') \<and>
     subscript_path report [''case_details'', ''incident_date''] =
       Inr (case_field ''incident_date'' ''N/A'' ''N/A'') \<and>
     subscript_path report [''case_details'', ''location''] =
       Inr (case_field ''location'' ''N/A'' ''N/A'') \<and>
     subscript_path report [''case_details'', ''description''] =
       Inr (case_field ''description''
              ''Analyse forensique d'un appareil Android'' ''Analyse forensique standard'') \<and>
     subscript_path report [''device_information'', ''device_model''] =
       Inr (dict_get_default device_info ''device_model'' (JStr ''Inconnu'')) \<and>
     subscript_path report [''device_information'', ''android_version''] =
       Inr (dict_get_default device_info ''android_version'' (JStr ''Inconnu'')) \<and>
     subscript_path report [''device_information'', ''manufacturer''] =
       Inr (dict_get_default device_info ''manufacturer'' (JStr ''Inconnu'')) \<and>
     subscript_path report [''device_information'', ''serial_number''] =
       Inr (dict_get_default device_info ''serial'' (JStr ''N/A'')) \<and>
     subscript_path report [''device_information'', ''imei''] =
       Inr (dict_get_default device_info ''imei'' (JStr ''N/A'')) \<and>
     subscript_path report [''device_information'', ''storage_capacity''] =
       Inr (dict_get_default device_info ''storage'' (JStr ''N/A'')) \<and>
     subscript_path report [''evidence_chain'', ''total_files''] =
       Inr (dict_get_default extraction_data ''total_files'' (JInt 0)) \<and>
     subscript_path report [''evidence_chain'', ''hashes_calculated''] =
       Inr (dict_get_default extraction_data ''hashes_calculated'' (JBool True)) \<and>
     subscript_path report [''evidence_chain'', ''integrity_verified''] =
       Inr (dict_get_default extraction_data ''integrity_ok'' (JBool True)) \<and>
     subscript_path report [''findings_summary'', ''significant_findings''] =
       Inr (dict_get_default extraction_data ''significant_findings''
              (JStr ''Aucune donnee significative'')) \<and>
     subscript_path report [''timeline_analysis'', ''first_activity''] =
       Inr (dict_get_default extraction_data ''first_activity'' (JStr ''N/A'')) \<and>
     subscript_path report [''timeline_analysis'', ''key_events''] =
       Inr (dict_get_default extraction_data ''key_events'' (JArr [])) \<and>
     subscript_path report [''conclusions'', ''main_findings''] =
       Inr (dict_get_default extraction_data ''main_findings''
              (JStr ''Aucune donnee compromettante detectee'')) \<and>
     subscript_path report [''findings_summary'', ''contacts_found''] =
       Inr (flag ''has_contacts'') \<and>
     subscript_path report [''findings_summary'', ''call_logs_found''] =
       Inr (flag ''has_calls'') \<and>
     subscript_path report [''findings_summary'', ''sms_messages_found''] =
       Inr (flag ''has_sms'') \<and>
     subscript_path report [''findings_summary'', ''whatsapp_data_found''] =
       Inr (flag ''has_whatsapp'') \<and>
     subscript_path report [''findings_summary'', ''google_maps_data_found''] =
       Inr (flag ''has_google_maps'') \<and>
     subscript_path report [''findings_summary'', ''images_found''] =
       Inr (flag ''has_images'') \<and>
     subscript_path report [''findings_summary'', ''location_data_found''] =
       Inr (flag ''has_location'') \<and>
     subscript_path report [''artefacts_extracted''] =
       Inr (JObj [(''contacts'', JInt 0), (''calls'', JInt 0), (''sms'', JInt 0),
                  (''whatsapp'', JInt 0), (''images'', JInt 0), (''videos'', JInt 0),
                  (''audio'', JInt 0), (''documents'', JInt 0), (''browsing_history'', JInt 0),
                  (''location_data'', JInt 0), (''google_maps'', JInt 0),
                  (''wifi_networks'', JInt 0), (''installed_apps'', JInt 0)])"
proof -
  let ?report = "build_report env extraction_data scenario_data device_info"
  have cf: "\<And>k d1 d2. scenario_field scenario_data k d1 d2 = case_field k d1 d2"
    by (simp add: assms(5) scenario_field_def)
  have fl: "\<And>k. oui_non extraction_data k = flag k"
    by (simp add: assms(6) oui_non_def)
  note html = generate_html_report_built
                [of env extraction_data scenario_data device_info, unfolded cf fl]
  from generate_forensic_report_built [OF assms(1-4) html, of w]
  obtain w' where
    g: "generate_forensic_report env w extraction_data scenario_data = (Inr ?report, w')"
    and j: "reports w' (report_path env ''.json'') = Some (JsonDoc ?report)"
    and h: "reports w' (report_path env ''.html'') = Some (HtmlDoc
         [JStr (''FR-'' @ stamp_compact env),
          JStr (''FR-'' @ stamp_compact env),
          JStr (stamp_iso env),
          case_field ''case_name'' ''Investigation Android'' ''Investigation Standard'',
          case_field ''incident_date'' ''N/A'' ''N/A'',
          case_field ''location'' ''N/A'' ''N/A'',
          dict_get_default device_info ''device_model'' (JStr ''Inconnu''),
          dict_get_default device_info ''android_version'' (JStr ''Inconnu''),
          dict_get_default device_info ''manufacturer'' (JStr ''Inconnu''),
          JStr ''Logical Acquisition via ADB'',
          JStr ''Android Collector Platform'',
          JStr (stamp_date_time env),
          JInt 0,
          flag ''has_contacts'',
          flag ''has_calls'',
          flag ''has_sms'',
          flag ''has_whatsapp'',
          flag ''has_google_maps'',
          dict_get_default extraction_data ''integrity_ok'' (JBool True),
          dict_get_default extraction_data ''total_files'' (JInt 0),
          dict_get_default extraction_data ''hashes_calculated'' (JBool True),
          dict_get_default extraction_data ''main_findings''
            (JStr ''Aucune donnee compromettante detectee''),
          JArr [JStr ''Conserver les fichiers de hash pour verification future'',
                JStr ''Archiver les preuves dans un support securise'',
                JStr ''Documenter toute manipulation ulterieure''],
          JStr ''Ce rapport a ete genere automatiquement. Pour une analyse complete, consulter un expert en forensic numerique.'',
          JInt (html_year env)])"
    by blast
  note fields = report_case_fields [of env extraction_data scenario_data device_info, unfolded cf]
    report_device_fields [of env extraction_data scenario_data device_info]
    report_extraction_fields [of env extraction_data scenario_data device_info]
    report_presence_fields [of env extraction_data scenario_data device_info, unfolded fl]
    report_artefacts [of env extraction_data scenario_data device_info]
  show ?thesis
    by (intro exI [of _ ?report] exI [of _ w'] conjI) (rule g j h fields)+
qed

text \<open>
  C10, witness: the scenario of the specification, with extraction data. The case name
  is \<^verbatim>\<open>Affaire X\<close> and the other case fields take their defaults; the device model and the
  number of files are the supplied ones; the flag supplied as true reads \<^verbatim>\<open>Oui\<close> and an
  omitted one \<^verbatim>\<open>Non\<close>; the persisted JSON document is the returned report, and the HTML
  document interpolates the same values.
\<close>

theorem generate_forensic_report_structure_witness:
  "makedirs_ok report_env_ok \<and> report_json_write report_env_ok = Written \<and>
   report_html_write report_env_ok = Written \<and>
   dict_get_default sample_extraction ''device_info'' (JObj []) =
     JObj [(''device_model'', JStr ''Infinix Smart 5'')] \<and>
   (\<exists>report w'.
      sample_report = (Inr report, w') \<and>
      reports w' ''collector/static/collected_data/forensic_reports/FR-20240101-120000.json'' =
        Some (JsonDoc report) \<and>
      reports w' ''collector/static/collected_data/forensic_reports/FR-20240101-120000.html'' =
        Some (HtmlDoc
          [JStr ''FR-20240101-120000'',
           JStr ''FR-20240101-120000'',
           JStr ''2024-01-01T12:00:00'',
           JStr ''Affaire X'',
           JStr ''N/A'',
           JStr ''N/A'',
           JStr ''Infinix Smart 5'',
           JStr ''Inconnu'',
           JStr ''Inconnu'',
           JStr ''Logical Acquisition via ADB'',
           JStr ''Android Collector Platform'',
           JStr ''2024-01-d 12:00:00'',
           JInt 0,
           JStr ''Oui'',
           JStr ''Non'',
           JStr ''Non'',
           JStr ''Non'',
           JStr ''Non'',
           JBool True,
           JInt 42,
           JBool True,
           JStr ''Aucune donnee compromettante detectee'',
           JArr [JStr ''Conserver les fichiers de hash pour verification future'',
                 JStr ''Archiver les preuves dans un support securise'',
                 JStr ''Documenter toute manipulation ulterieure''],
           JStr ''Ce rapport a ete genere automatiquement. Pour une analyse complete, consulter un expert en forensic numerique.'',
           JInt 2024]) \<and>
      subscript_path report [''case_details'', ''case_name''] = Inr (JStr ''Affaire X'') \<and>
      subscript_path report [''case_details'', ''location''] = Inr (JStr ''N/A'') \<and>
      subscript_path report [''case_reference''] = Inr (JStr ''CS-2024-001'') \<and>
      subscript_path report [''device_information'', ''device_model''] =
        Inr (JStr ''Infinix Smart 5'') \<and>
      subscript_path report [''evidence_chain'', ''total_files''] = Inr (JInt 42) \<and>
      subscript_path report [''findings_summary'', ''contacts_found''] = Inr (JStr ''Oui'') \<and>
      subscript_path report [''findings_summary'', ''call_logs_found''] = Inr (JStr ''Non''))"
proof -
  let ?di = "[(''device_model'', JStr ''Infinix Smart 5'')]"
  let ?cf = "\<lambda>k d1 d2. case affaire_x of
                          None \<Rightarrow> JStr d2
                        | Some sd \<Rightarrow> if sd = [] then JStr d2 else dict_get_default sd k (JStr d1)"
  let ?fl = "\<lambda>k. JStr (if truthy (dict_get_default sample_extraction k (JBool False))
                        then ''Oui'' else ''Non'')"
  have io: "makedirs_ok report_env_ok" "report_json_write report_env_ok = Written"
    "report_html_write report_env_ok = Written"
    by (simp_all add: report_env_ok_def)
  have di: "dict_get_default sample_extraction ''device_info'' (JObj []) = JObj ?di"
    by (simp add: dict_get_default_def sample_extraction_def)
  have pj: "report_path report_env_ok ''.json'' =
              ''collector/static/collected_data/forensic_reports/FR-20240101-120000.json''"
    and ph: "report_path report_env_ok ''.html'' =
              ''collector/static/collected_data/forensic_reports/FR-20240101-120000.html''"
    by (simp_all add: report_path_def report_env_ok_def)
  have env: "''FR-'' @ stamp_compact report_env_ok = ''FR-20240101-120000''"
    "stamp_iso report_env_ok = ''2024-01-01T12:00:00''"
    "stamp_date_time report_env_ok = ''2024-01-d 12:00:00''"
    "html_year report_env_ok = 2024"
    by (simp_all add: report_env_ok_def)
  have cf: "?cf ''case_name'' ''Investigation Android'' ''Investigation Standard'' =
              JStr ''Affaire X''"
    "?cf ''incident_date'' ''N/A'' ''N/A'' = JStr ''N/A''"
    "?cf ''location'' ''N/A'' ''N/A'' = JStr ''N/A''"
    "?cf ''case_number'' ''CS-2024-001'' ''CS-NON-RENSEIGNE'' = JStr ''CS-2024-001''"
    by (simp_all add: affaire_x_def dict_get_default_def)
  have fl: "?fl ''has_contacts'' = JStr ''Oui''" "?fl ''has_calls'' = JStr ''Non''"
    "?fl ''has_sms'' = JStr ''Non''" "?fl ''has_whatsapp'' = JStr ''Non''"
    "?fl ''has_google_maps'' = JStr ''Non''"
    by (simp_all add: sample_extraction_def dict_get_default_def)
  have dv: "dict_get_default ?di ''device_model'' (JStr ''Inconnu'') = JStr ''Infinix Smart 5''"
    "dict_get_default ?di ''android_version'' (JStr ''Inconnu'') = JStr ''Inconnu''"
    "dict_get_default ?di ''manufacturer'' (JStr ''Inconnu'') = JStr ''Inconnu''"
    "dict_get_default sample_extraction ''integrity_ok'' (JBool True) = JBool True"
    "dict_get_default sample_extraction ''total_files'' (JInt 0) = JInt 42"
    "dict_get_default sample_extraction ''hashes_calculated'' (JBool True) = JBool True"
    "dict_get_default sample_extraction ''main_findings''
       (JStr ''Aucune donnee compromettante detectee'') =
       JStr ''Aucune donnee compromettante detectee''"
    by (simp_all add: sample_extraction_def dict_get_default_def)
  from generate_forensic_report_structure
         [where env = report_env_ok and w = empty_world and extraction_data = sample_extraction
            and scenario_data = affaire_x and device_info = ?di,
          OF io di refl refl, folded sample_report_def]
  obtain report w' where
    "sample_report = (Inr report, w')"
    "reports w' (report_path report_env_ok ''.json'') = Some (JsonDoc report)"
    "reports w' (report_path report_env_ok ''.html'') =
       Some (HtmlDoc
         [JStr (''FR-'' @ stamp_compact report_env_ok),
          JStr (''FR-'' @ stamp_compact report_env_ok),
          JStr (stamp_iso report_env_ok),
          ?cf ''case_name'' ''Investigation Android'' ''Investigation Standard'',
          ?cf ''incident_date'' ''N/A'' ''N/A'',
          ?cf ''location'' ''N/A'' ''N/A'',
          dict_get_default ?di ''device_model'' (JStr ''Inconnu''),
          dict_get_default ?di ''android_version'' (JStr ''Inconnu''),
          dict_get_default ?di ''manufacturer'' (JStr ''Inconnu''),
          JStr ''Logical Acquisition via ADB'',
          JStr ''Android Collector Platform'',
          JStr (stamp_date_time report_env_ok),
          JInt 0,
          ?fl ''has_contacts'',
          ?fl ''has_calls'',
          ?fl ''has_sms'',
          ?fl ''has_whatsapp'',
          ?fl ''has_google_maps'',
          dict_get_default sample_extraction ''integrity_ok'' (JBool True),
          dict_get_default sample_extraction ''total_files'' (JInt 0),
          dict_get_default sample_extraction ''hashes_calculated'' (JBool True),
          dict_get_default sample_extraction ''main_findings''
            (JStr ''Aucune donnee compromettante detectee''),
          JArr [JStr ''Conserver les fichiers de hash pour verification future'',
                JStr ''Archiver les preuves dans un support securise'',
                JStr ''Documenter toute manipulation ulterieure''],
          JStr ''Ce rapport a ete genere automatiquement. Pour une analyse complete, consulter un expert en forensic numerique.'',
          JInt (html_year report_env_ok)])"
    "subscript_path report [''case_details'', ''case_name''] =
       Inr (?cf ''case_name'' ''Investigation Android'' ''Investigation Standard'')"
    "subscript_path report [''case_details'', ''location''] = Inr (?cf ''location'' ''N/A'' ''N/A'')"
    "subscript_path report [''case_reference''] =
       Inr (?cf ''case_number'' ''CS-2024-001'' ''CS-NON-RENSEIGNE'')"
    "subscript_path report [''device_information'', ''device_model''] =
       Inr (dict_get_default ?di ''device_model'' (JStr ''Inconnu''))"
    "subscript_path report [''evidence_chain'', ''total_files''] =
       Inr (dict_get_default sample_extraction ''total_files'' (JInt 0))"
    "subscript_path report [''findings_summary'', ''contacts_found''] = Inr (?fl ''has_contacts'')"
    "subscript_path report [''findings_summary'', ''call_logs_found''] = Inr (?fl ''has_calls'')"
    by blast
  then show ?thesis
    unfolding pj ph env cf fl dv using io di by blast
qed

text \<open>
  C10, as the specification states it, fails: the extraction data supply the boolean
  \<^verbatim>\<open>True\<close> under \<^verbatim>\<open>has_contacts\<close>, and the corresponding field of the report is the text
  \<^verbatim>\<open>Oui\<close>, not the supplied value.
\<close>

theorem presence_flag_rendered:
  "dict_get sample_extraction ''has_contacts'' = JBool True \<and>
   subscript_path (projr (fst sample_report)) [''findings_summary'', ''contacts_found''] =
     Inr (JStr ''Oui'')"
  by (simp add: sample_report_def sample_extraction_def affaire_x_def report_env_ok_def
        empty_world_def generate_forensic_report_def save_report_files_def write_report_def
        generate_html_report_def build_report_def subscript_def count_artefacts_def
        generate_findings_summary_def oui_non_def sum_of_dict_def joined_items_def py_iter_def
        dict_get_def dict_get_default_def Let_def)

end
